theory Spec2Isabelle
  imports Complex_Main "HOL-Library.Word" "HOL-Library.Monad_Syntax"
begin

section \<open>JavaScript strings\<close>

text \<open>
  A JavaScript string is a sequence of UTF-16 code units; \<open>length\<close>, \<open>slice\<close> and
  \<open>substring\<close> count code units. The Korean literals of the source are written as
  their code units, ASCII pieces through \<open>ascii\<close>.
\<close>

type_synonym jstring = "16 word list"

definition ascii :: "string \<Rightarrow> jstring" where
  "ascii s = map of_char s"

text \<open>The JavaScript \<open>a || b\<close> on an optional string: \<open>undefined\<close> and \<open>""\<close> are falsy.\<close>

definition or_else :: "jstring option \<Rightarrow> jstring \<Rightarrow> jstring" where
  "or_else v d = (case v of None \<Rightarrow> d | Some s \<Rightarrow> if s = [] then d else s)"

text \<open>\<open>v && ..\<close> on an optional string: the string when it is there and not empty.\<close>

definition truthy :: "jstring option \<Rightarrow> jstring option" where
  "truthy v = (case v of None \<Rightarrow> None | Some s \<Rightarrow> if s = [] then None else Some s)"

text \<open>
  \<open>encodeURIComponent\<close> raises a URIError on a string with a lone surrogate: a high
  surrogate that no low surrogate follows, or a low surrogate that no high one precedes.
\<close>

definition isHighSurrogate :: "16 word \<Rightarrow> bool" where
  "isHighSurrogate c = (0xD800 \<le> c \<and> c \<le> 0xDBFF)"

definition isLowSurrogate :: "16 word \<Rightarrow> bool" where
  "isLowSurrogate c = (0xDC00 \<le> c \<and> c \<le> 0xDFFF)"

fun well_formed :: "jstring \<Rightarrow> bool" where
  "well_formed [] = True"
| "well_formed [c] = (\<not> isHighSurrogate c \<and> \<not> isLowSurrogate c)"
| "well_formed (c # d # s) =
     (if isHighSurrogate c then isLowSurrogate d \<and> well_formed s
      else \<not> isLowSurrogate c \<and> well_formed (d # s))"

text \<open>
  \<open>trim()\<close> removes white space and line terminators from both ends.
\<close>

definition isSpace :: "16 word \<Rightarrow> bool" where
  "isSpace c =
     ((0x0009 \<le> c \<and> c \<le> 0x000D) \<or> c = 0x0020 \<or> c = 0x00A0 \<or> c = 0x1680 \<or>
      (0x2000 \<le> c \<and> c \<le> 0x200A) \<or> c = 0x2028 \<or> c = 0x2029 \<or> c = 0x202F \<or>
      c = 0x205F \<or> c = 0x3000 \<or> c = 0xFEFF)"

definition trim :: "jstring \<Rightarrow> jstring" where
  "trim s = rev (dropWhile isSpace (rev (dropWhile isSpace s)))"

text \<open>Template literals print a number in decimal.\<close>

fun digits :: "nat \<Rightarrow> jstring" where
  "digits n = (if n < 10 then [of_nat (48 + n)] else digits (n div 10) @ [of_nat (48 + n mod 10)])"

definition show_int :: "int \<Rightarrow> jstring" where
  "show_int i = (if i < 0 then ascii ''-'' @ digits (nat (- i)) else digits (nat i))"

text \<open>\<open>lines.join("\n")\<close>.\<close>

fun join_lines :: "jstring list \<Rightarrow> jstring" where
  "join_lines [] = []"
| "join_lines [l] = l"
| "join_lines (l # ls) = l @ [0x000A] @ join_lines ls"

section \<open>Raw arguments: JSON values\<close>

text \<open>
  The arguments of a tool call arrive as a parsed JSON value. A number is a double, here
  the rational it denotes (JSON has no NaN and no infinity). An object is the list of its
  key-value pairs, each key once, looked up with \<open>map_of\<close>; a key the object does not
  have reads as \<open>undefined\<close>, which is \<open>None\<close>.
\<close>

datatype jvalue =
    JNull
  | JBool bool
  | JNum rat
  | JStr jstring
  | JArr "jvalue list"
  | JObj "(jstring \<times> jvalue) list"

section \<open>Input schemas (schemas/*.ts)\<close>

text \<open>
  The schemas are zod objects. The model keeps what the declarations say: the type of
  each field, its length or range checks, \<open>optional\<close>, \<open>default\<close>, \<open>enum\<close>, and
  \<open>strict\<close> (a key outside the shape is an issue). Parsing collects the issues of every
  field; it succeeds when there is none.
\<close>

datatype issue_code =
  invalid_type | too_small | too_big | invalid_enum_value | invalid_string

datatype issue =
    Issue jstring issue_code
  | UnrecognizedKeys "jstring list"
  | NotAnObject

type_synonym 'a field = "jvalue option \<Rightarrow> issue_code list + 'a"

definition z_string :: "nat \<Rightarrow> nat \<Rightarrow> jstring field" where
  "z_string lo hi v =
     (case v of
        Some (JStr s) \<Rightarrow>
          (let cs = (if length s < lo then [too_small] else []) @
                    (if hi < length s then [too_big] else [])
           in if cs = [] then Inr s else Inl cs)
      | _ \<Rightarrow> Inl [invalid_type])"

text \<open>\<open>z.string().regex(..)\<close> and \<open>z.string().url(..)\<close>: a string that passes a test.\<close>

definition z_string_check :: "(jstring \<Rightarrow> bool) \<Rightarrow> jstring field" where
  "z_string_check ok v =
     (case v of
        Some (JStr s) \<Rightarrow> if ok s then Inr s else Inl [invalid_string]
      | _ \<Rightarrow> Inl [invalid_type])"

text \<open>\<open>z.number().int().min(lo).max(hi)\<close>.\<close>

definition z_int :: "int \<Rightarrow> int \<Rightarrow> int field" where
  "z_int lo hi v =
     (case v of
        Some (JNum r) \<Rightarrow>
          (let cs = (if r \<noteq> of_int \<lfloor>r\<rfloor> then [invalid_type] else []) @
                    (if r < of_int lo then [too_small] else []) @
                    (if of_int hi < r then [too_big] else [])
           in if cs = [] then Inr \<lfloor>r\<rfloor> else Inl cs)
      | _ \<Rightarrow> Inl [invalid_type])"

definition z_enum :: "(jstring \<times> 'a) list \<Rightarrow> 'a field" where
  "z_enum values v =
     (case v of
        Some (JStr s) \<Rightarrow>
          (case map_of values s of Some a \<Rightarrow> Inr a | None \<Rightarrow> Inl [invalid_enum_value])
      | _ \<Rightarrow> Inl [invalid_type])"

definition z_optional :: "'a field \<Rightarrow> 'a option field" where
  "z_optional f v =
     (case v of
        None \<Rightarrow> Inr None
      | Some j \<Rightarrow> (case f (Some j) of Inl cs \<Rightarrow> Inl cs | Inr a \<Rightarrow> Inr (Some a)))"

text \<open>\<open>default(d)\<close>: an absent value is replaced by \<open>d\<close> before the inner schema runs.\<close>

definition z_default :: "jvalue \<Rightarrow> 'a field \<Rightarrow> 'a field" where
  "z_default d f v = f (Some (case v of None \<Rightarrow> d | Some j \<Rightarrow> j))"

text \<open>The value of one key of the object, with its issues filed under the key.\<close>

definition at_key :: "(jstring \<times> jvalue) list \<Rightarrow> jstring \<Rightarrow> 'a field \<Rightarrow> issue list + 'a" where
  "at_key kvs k f =
     (case f (map_of kvs k) of Inl cs \<Rightarrow> Inl (map (Issue k) cs) | Inr a \<Rightarrow> Inr a)"

text \<open>Fields are combined left to right; the issues of all of them are kept.\<close>

fun and_field :: "issue list + ('a \<Rightarrow> 'b) \<Rightarrow> issue list + 'a \<Rightarrow> issue list + 'b" where
  "and_field (Inr f) (Inr a) = Inr (f a)"
| "and_field (Inl is) (Inr a) = Inl is"
| "and_field (Inr f) (Inl js) = Inl js"
| "and_field (Inl is) (Inl js) = Inl (is @ js)"

text \<open>\<open>strict()\<close>: the keys of the input that the shape does not declare.\<close>

definition strict :: "jstring list \<Rightarrow> (jstring \<times> jvalue) list \<Rightarrow> issue list + 'a \<Rightarrow> issue list + 'a" where
  "strict shape kvs r =
     (let extra = filter (\<lambda>k. k \<notin> set shape) (map fst kvs)
      in if extra = [] then r
         else (case r of Inl is \<Rightarrow> Inl (is @ [UnrecognizedKeys extra])
                       | Inr a \<Rightarrow> Inl [UnrecognizedKeys extra]))"

subsection \<open>schemas/common.ts and schemas/searchSpot.ts\<close>

datatype ResponseFormat = markdown | json

definition ResponseFormatSchema :: "ResponseFormat field" where
  "ResponseFormatSchema =
     z_default (JStr (ascii ''markdown''))
       (z_enum [(ascii ''markdown'', markdown), (ascii ''json'', json)])"

datatype Purpose = study | exercise | reading | work

definition PurposeSchema :: "Purpose field" where
  "PurposeSchema =
     z_enum [(ascii ''study'', study), (ascii ''exercise'', exercise),
             (ascii ''reading'', reading), (ascii ''work'', work)]"

record SearchSpotInput =
  purpose :: Purpose
  keyword :: "jstring option"
  location :: jstring
  radius :: int
  limit :: int
  response_format :: ResponseFormat

definition SearchSpotInput_keys :: "jstring list" where
  "SearchSpotInput_keys =
     [ascii ''purpose'', ascii ''keyword'', ascii ''location'', ascii ''radius'',
      ascii ''limit'', ascii ''response_format'']"

definition SearchSpotInputSchema :: "jvalue \<Rightarrow> issue list + SearchSpotInput" where
  "SearchSpotInputSchema input =
     (case input of
        JObj kvs \<Rightarrow>
          strict SearchSpotInput_keys kvs
            (and_field (and_field (and_field (and_field (and_field (and_field
               (Inr (\<lambda>p k l r n f.
                  \<lparr> purpose = p, keyword = k, location = l, radius = r, limit = n,
                    response_format = f \<rparr>))
               (at_key kvs (ascii ''purpose'') PurposeSchema))
               (at_key kvs (ascii ''keyword'') (z_optional (z_string 0 100))))
               (at_key kvs (ascii ''location'') (z_string 1 100)))
               (at_key kvs (ascii ''radius'') (z_default (JNum 500) (z_int 100 20000))))
               (at_key kvs (ascii ''limit'') (z_default (JNum 5) (z_int 1 15))))
               (at_key kvs (ascii ''response_format'') ResponseFormatSchema))
      | _ \<Rightarrow> Inl [NotAnObject])"

subsection \<open>schemas/blockSession.ts\<close>

datatype CalendarColor = BLUE | RED | YELLOW | GREEN | PINK | ORANGE | PURPLE | GRAY

definition CalendarColorSchema :: "CalendarColor field" where
  "CalendarColorSchema =
     z_default (JStr (ascii ''BLUE''))
       (z_enum [(ascii ''BLUE'', BLUE), (ascii ''RED'', RED), (ascii ''YELLOW'', YELLOW),
                (ascii ''GREEN'', GREEN), (ascii ''PINK'', PINK), (ascii ''ORANGE'', ORANGE),
                (ascii ''PURPLE'', PURPLE), (ascii ''GRAY'', GRAY)])"

text \<open>
  The pattern of \<open>start_time\<close>:
  \<^verbatim>\<open>^\d{4}-\d{2}-\d{2}T\d{2}:\d{2}(:\d{2})?(Z|[+-]\d{2}:\d{2})?$\<close>.
  Each piece consumes a prefix and returns the rest. The seconds group is greedy, and
  nothing after it can start with a colon, so no backtracking is needed.
\<close>

definition isDigit :: "16 word \<Rightarrow> bool" where
  "isDigit c = (0x30 \<le> c \<and> c \<le> 0x39)"

definition twoDigits :: "jstring \<Rightarrow> jstring option" where
  "twoDigits s =
     (case s of a # b # r \<Rightarrow> if isDigit a \<and> isDigit b then Some r else None | _ \<Rightarrow> None)"

definition lit :: "16 word \<Rightarrow> jstring \<Rightarrow> jstring option" where
  "lit c s = (case s of d # r \<Rightarrow> if d = c then Some r else None | [] \<Rightarrow> None)"

definition dateTimePrefix :: "jstring \<Rightarrow> jstring option" where
  "dateTimePrefix s =
     do { r \<leftarrow> twoDigits s; r \<leftarrow> twoDigits r; r \<leftarrow> lit 0x2D r;
          r \<leftarrow> twoDigits r; r \<leftarrow> lit 0x2D r;
          r \<leftarrow> twoDigits r; r \<leftarrow> lit 0x54 r;
          r \<leftarrow> twoDigits r; r \<leftarrow> lit 0x3A r;
          twoDigits r }"

definition optSeconds :: "jstring \<Rightarrow> jstring" where
  "optSeconds r = (case do { q \<leftarrow> lit 0x3A r; twoDigits q } of Some q \<Rightarrow> q | None \<Rightarrow> r)"

definition zoneSuffix :: "jstring \<Rightarrow> bool" where
  "zoneSuffix r =
     (r = [] \<or> r = [0x5A] \<or>
      (case r of
         c # q \<Rightarrow> (c = 0x2B \<or> c = 0x2D) \<and>
                  do { q \<leftarrow> twoDigits q; q \<leftarrow> lit 0x3A q; twoDigits q } = Some []
       | [] \<Rightarrow> False))"

definition start_time_regex :: "jstring \<Rightarrow> bool" where
  "start_time_regex s =
     (case dateTimePrefix s of None \<Rightarrow> False | Some r \<Rightarrow> zoneSuffix (optSeconds r))"

record BlockSessionInput =
  title :: jstring
  location_name :: "jstring option"
  location_address :: "jstring option"
  start_time :: jstring
  duration_minutes :: int
  reminder_minutes :: int
  color :: CalendarColor

definition BlockSessionInput_keys :: "jstring list" where
  "BlockSessionInput_keys =
     [ascii ''title'', ascii ''location_name'', ascii ''location_address'',
      ascii ''start_time'', ascii ''duration_minutes'', ascii ''reminder_minutes'',
      ascii ''color'']"

definition BlockSessionInputSchema :: "jvalue \<Rightarrow> issue list + BlockSessionInput" where
  "BlockSessionInputSchema input =
     (case input of
        JObj kvs \<Rightarrow>
          strict BlockSessionInput_keys kvs
            (and_field (and_field (and_field (and_field (and_field (and_field (and_field
               (Inr (\<lambda>t n a s d r c.
                  \<lparr> title = t, location_name = n, location_address = a, start_time = s,
                    duration_minutes = d, reminder_minutes = r, color = c \<rparr>))
               (at_key kvs (ascii ''title'') (z_string 1 50)))
               (at_key kvs (ascii ''location_name'') (z_optional (z_string 0 100))))
               (at_key kvs (ascii ''location_address'') (z_optional (z_string 0 200))))
               (at_key kvs (ascii ''start_time'') (z_string_check start_time_regex)))
               (at_key kvs (ascii ''duration_minutes'') (z_int 15 480)))
               (at_key kvs (ascii ''reminder_minutes'') (z_default (JNum 15) (z_int 0 1440))))
               (at_key kvs (ascii ''color'') CalendarColorSchema))
      | _ \<Rightarrow> Inl [NotAnObject])"

subsection \<open>schemas/sendCommitment.ts\<close>

datatype MessageTemplateType = FeedType | TextType

definition MessageTemplateTypeSchema :: "MessageTemplateType field" where
  "MessageTemplateTypeSchema =
     z_default (JStr (ascii ''feed''))
       (z_enum [(ascii ''feed'', FeedType), (ascii ''text'', TextType)])"

record SendCommitmentInput =
  goal :: jstring
  location_name :: "jstring option"
  location_url :: "jstring option"
  encouragement :: "jstring option"
  template_type :: MessageTemplateType

definition SendCommitmentInput_keys :: "jstring list" where
  "SendCommitmentInput_keys =
     [ascii ''goal'', ascii ''location_name'', ascii ''location_url'',
      ascii ''encouragement'', ascii ''template_type'']"

text \<open>
  \<open>z.string().url()\<close> asks the runtime's URL parser; the test is a parameter \<open>isUrl\<close>.
\<close>

definition SendCommitmentInputSchema ::
  "(jstring \<Rightarrow> bool) \<Rightarrow> jvalue \<Rightarrow> issue list + SendCommitmentInput" where
  "SendCommitmentInputSchema isUrl input =
     (case input of
        JObj kvs \<Rightarrow>
          strict SendCommitmentInput_keys kvs
            (and_field (and_field (and_field (and_field (and_field
               (Inr (\<lambda>g n u e t.
                  \<lparr> goal = g, location_name = n, location_url = u, encouragement = e,
                    template_type = t \<rparr>))
               (at_key kvs (ascii ''goal'') (z_string 1 200)))
               (at_key kvs (ascii ''location_name'') (z_optional (z_string 0 100))))
               (at_key kvs (ascii ''location_url'') (z_optional (z_string_check isUrl))))
               (at_key kvs (ascii ''encouragement'') (z_optional (z_string 0 100))))
               (at_key kvs (ascii ''template_type'') MessageTemplateTypeSchema))
      | _ \<Rightarrow> Inl [NotAnObject])"

section \<open>Data of the services (types.ts)\<close>

text \<open>
  The provider's records, with the fields the code reads. The coordinate fields \<open>x\<close>
  (longitude) and \<open>y\<close> (latitude) carry a suffix.
\<close>

record KakaoAddressDocument =
  address_name :: jstring
  x_doc :: jstring
  y_doc :: jstring

record KakaoPlace =
  place_name :: jstring
  category_name :: jstring
  phone :: jstring
  address_name :: jstring
  road_address_name :: jstring
  x_place :: jstring
  y_place :: jstring
  place_url :: jstring
  distance :: "jstring option"

record Coordinates =
  latitude :: jstring
  longitude :: jstring

record ProcessedPlace =
  name :: jstring
  address :: jstring
  roadAddress :: jstring
  phone :: jstring
  category :: jstring
  distance :: jstring
  mapUrl :: jstring
  coordinates :: Coordinates

record SearchSpotOutput =
  query :: jstring
  purpose :: Purpose
  location :: jstring
  total :: nat
  places :: "ProcessedPlace list"

record BlockSessionOutput =
  success :: bool
  eventId :: "jstring option"
  title :: jstring
  startTime :: jstring
  endTime :: jstring
  location :: "jstring option"
  reminder :: int
  message :: jstring

record SendCommitmentOutput =
  success :: bool
  goal :: jstring
  location :: "jstring option"
  encouragement :: jstring
  message :: jstring

record CalendarEventTime =
  start_at :: jstring
  end_at :: jstring
  time_zone :: jstring
  all_day :: bool

record CalendarEventLocation =
  name :: jstring
  address :: "jstring option"

record CalendarEvent =
  title :: jstring
  time :: CalendarEventTime
  description :: "jstring option"
  location :: "CalendarEventLocation option"
  reminders :: "int list option"
  color :: CalendarColor

record MessageLink =
  web_url :: jstring
  mobile_web_url :: jstring

record MessageButton =
  title :: jstring
  link :: MessageLink

record MessageContent =
  title :: jstring
  description :: jstring
  link :: MessageLink

record FeedTemplate =
  object_type :: jstring
  content :: MessageContent
  buttons :: "MessageButton list option"

record TextTemplate =
  object_type :: jstring
  "text" :: jstring
  link :: MessageLink

datatype MessageTemplate = Feed FeedTemplate | Text TextTemplate

text \<open>The query parameters of a keyword search; a parameter that is not sent is \<open>None\<close>.\<close>

record KeywordSearchParams =
  query_param :: jstring
  x_param :: "jstring option"
  y_param :: "jstring option"
  radius_param :: "int option"
  size_param :: "int option"
  sort_param :: "jstring option"
  category_group_code :: "jstring option"

section \<open>Exceptions, outbound calls and the environment\<close>

text \<open>
  A thrown value is an \<open>Error\<close> with its message, an \<open>AxiosError\<close> (the status of the
  response when there is one, the message, and the \<open>msg\<close> of the response body when
  there is one), a \<open>ZodError\<close> with its issues, or a value that is not an \<open>Error\<close>,
  with what \<open>String(..)\<close> makes of it.
\<close>

datatype exn =
    Error jstring
  | AxiosError "nat option" jstring "jstring option"
  | ZodError "issue list"
  | NotAnError jstring

text \<open>
  An outbound HTTP request: the endpoint, the credential of the \<open>Authorization\<close> header,
  and the payload. Every function that can reach the network returns, next to its result,
  the list of the requests it has made, in order.
\<close>

datatype call =
    GET_address_search jstring jstring
  | GET_keyword_search jstring KeywordSearchParams
  | POST_create_event jstring CalendarEvent
  | POST_send_to_me jstring MessageTemplate

text \<open>What \<open>fetch\<close> resolves to: the status, and the \<open>documents\<close> of the parsed body, or
  the exception that parsing the body or reading \<open>documents.length\<close> raises.\<close>

datatype 'd fetched = Fetched nat "exn + 'd list"

text \<open>
  The serverless dispatcher with schemas runs its search through helpers that are not
  among the sources: \<open>coordinateLookup\<close>, a \<open>searchPlaces\<close> of a query, a longitude, a
  latitude and options, the tables \<open>PURPOSE_KEYWORDS\<close> and \<open>PURPOSE_CATEGORY_MAP\<close>, and a
  \<open>formatSearchSpotResult\<close> of the object that runner builds. They are parameters.
\<close>

record api_helpers =
  coordinateLookup :: "jstring \<Rightarrow> (exn + jstring \<times> jstring) \<times> call list"
  searchPlaces_helper ::
    "jstring \<Rightarrow> jstring \<Rightarrow> jstring \<Rightarrow> int \<Rightarrow> int \<Rightarrow> jstring option \<Rightarrow>
     (exn + KakaoPlace list) \<times> call list"
  PURPOSE_KEYWORDS :: "Purpose \<Rightarrow> jstring option"
  PURPOSE_CATEGORY_MAP :: "Purpose \<Rightarrow> jstring option"
  formatSearchSpotResult_helper :: "jvalue \<Rightarrow> jstring \<Rightarrow> exn + jstring"

text \<open>
  The environment of one request: the configuration, the answers of the provider (for the
  axios client a 2xx body or the rejection; for \<open>fetch\<close> the response), and the
  operations of the runtime and of zod that the model does not compute: the message of a
  \<open>ZodError\<close>, the URL test, \<open>JSON.stringify\<close>, \<open>String(..)\<close>, \<open>Math.random\<close>, and
  the \<open>Date\<close> conversions. \<open>iso_after s m\<close> is the UTC timestamp, to the second, of the
  instant \<open>m\<close> minutes after the one \<open>s\<close> denotes; \<open>toISOString\<close> raises a RangeError
  when \<open>s\<close> is not a date. \<open>formatDateTime\<close> and \<open>formatTime_after\<close> print local time.
  \<open>big_reminder m\<close> is what the double arithmetic \<open>Math.round(m / 5) * 5\<close> gives for an
  \<open>m\<close> of magnitude \<open>2 ^ 50\<close> or more, where the quotient is no longer exact enough to
  round as the rational does, with its rendering in a template literal.
\<close>

record env =
  kakaoRestApiKey :: jstring
  KAKAO_ACCESS_TOKEN :: "jstring option"
  address_search :: "jstring \<Rightarrow> jstring \<Rightarrow> exn + KakaoAddressDocument list"
  keyword_search :: "jstring \<Rightarrow> KeywordSearchParams \<Rightarrow> exn + KakaoPlace list"
  create_event :: "jstring \<Rightarrow> CalendarEvent \<Rightarrow> exn + jstring"
  send_to_me :: "jstring \<Rightarrow> MessageTemplate \<Rightarrow> exn + unit"
  fetch_address :: "jstring \<Rightarrow> jstring \<Rightarrow> exn + KakaoAddressDocument fetched"
  fetch_keyword :: "jstring \<Rightarrow> KeywordSearchParams \<Rightarrow> exn + KakaoPlace fetched"
  fetch_create_event :: "jstring \<Rightarrow> CalendarEvent \<Rightarrow> exn + nat"
  fetch_send_to_me :: "jstring \<Rightarrow> MessageTemplate \<Rightarrow> exn + nat"
  zod_message :: "issue list \<Rightarrow> jstring"
  is_url :: "jstring \<Rightarrow> bool"
  JSON_stringify :: "jvalue \<Rightarrow> jstring"
  to_String :: "jvalue \<Rightarrow> jstring"
  random_index :: nat
  iso_after :: "jstring \<Rightarrow> int \<Rightarrow> exn + jstring"
  iso_millis_after :: "jstring \<Rightarrow> int \<Rightarrow> exn + jstring"
  formatDateTime :: "jstring \<Rightarrow> jstring"
  formatTime_after :: "jstring \<Rightarrow> int \<Rightarrow> jstring"
  big_reminder :: "int \<Rightarrow> int \<times> jstring"
  helpers :: api_helpers

text \<open>\<open>error instanceof Error ? error.message : fallback\<close>.\<close>

definition error_message :: "env \<Rightarrow> jstring \<Rightarrow> exn \<Rightarrow> jstring" where
  "error_message env fallback e =
     (case e of
        Error m \<Rightarrow> m
      | AxiosError st m d \<Rightarrow> m
      | ZodError is \<Rightarrow> zod_message env is
      | NotAnError s \<Rightarrow> fallback)"

section \<open>Purposes (constants.ts)\<close>

definition KW_STUDY :: jstring where
  "KW_STUDY = [0xC2A4, 0xD130, 0xB514, 0xCE74, 0xD398]"
definition KW_EXERCISE :: jstring where
  "KW_EXERCISE = [0xD5EC, 0xC2A4, 0xC7A5]"
definition KW_READING :: jstring where
  "KW_READING = [0xBD81, 0xCE74, 0xD398]"
definition KW_WORK :: jstring where
  "KW_WORK = [0xCF54, 0xC6CC, 0xD0B9, 0xC2A4, 0xD398, 0xC774, 0xC2A4]"
text \<open>\<open>PURPOSE_CONFIG[purpose].defaultKeyword\<close> and \<open>.categoryCode\<close>.\<close>

fun defaultKeyword :: "Purpose \<Rightarrow> jstring" where
  "defaultKeyword study = KW_STUDY"
| "defaultKeyword exercise = KW_EXERCISE"
| "defaultKeyword reading = KW_READING"
| "defaultKeyword work = KW_WORK"

fun categoryCode :: "Purpose \<Rightarrow> jstring option" where
  "categoryCode study = Some (ascii ''CE7'')"
| "categoryCode exercise = None"
| "categoryCode reading = Some (ascii ''CE7'')"
| "categoryCode work = None"

section \<open>Place search (services/kakaoLocalApi.ts)\<close>

definition ERR_KEY_NOT_CONFIGURED :: jstring where
  "ERR_KEY_NOT_CONFIGURED = ascii ''KAKAO_REST_API_KEY is not configured''"
definition ERR_LOCATION_NOT_FOUND :: jstring where
  "ERR_LOCATION_NOT_FOUND = [0xC704, 0xCE58, 0xB97C] @ ascii '' '' @ [0xCC3E, 0xC744] @
     ascii '' '' @ [0xC218] @ ascii '' '' @ [0xC5C6, 0xC2B5, 0xB2C8, 0xB2E4] @ ascii '': ''"
definition ERR_KAKAO_AUTH :: jstring where
  "ERR_KAKAO_AUTH = ascii ''Kakao API '' @ [0xC778, 0xC99D] @ ascii '' '' @
     [0xC2E4, 0xD328] @ ascii ''. API Key'' @ [0xB97C] @ ascii '' '' @
     [0xD655, 0xC778, 0xD574, 0xC8FC, 0xC138, 0xC694] @ ascii ''.''"
definition ERR_RATE_LIMIT :: jstring where
  "ERR_RATE_LIMIT = ascii ''API '' @ [0xD638, 0xCD9C] @ ascii '' '' @ [0xD55C, 0xB3C4] @
     ascii '' '' @ [0xCD08, 0xACFC] @ ascii ''. '' @ [0xC7A0, 0xC2DC] @ ascii '' '' @
     [0xD6C4] @ ascii '' '' @ [0xB2E4, 0xC2DC] @ ascii '' '' @
     [0xC2DC, 0xB3C4, 0xD574, 0xC8FC, 0xC138, 0xC694] @ ascii ''.''"
definition ERR_SEARCH_FAILED :: jstring where
  "ERR_SEARCH_FAILED = [0xC7A5, 0xC18C] @ ascii '' '' @ [0xAC80, 0xC0C9] @ ascii '' '' @
     [0xC2E4, 0xD328] @ ascii '': ''"
definition NO_INFO :: jstring where
  "NO_INFO = [0xC815, 0xBCF4] @ ascii '' '' @ [0xC5C6, 0xC74C]"
text \<open>The parameters of the fallback lookup: the query and \<open>size: 1\<close>.\<close>

definition lookup_params :: "jstring \<Rightarrow> KeywordSearchParams" where
  "lookup_params loc =
     \<lparr> query_param = loc, x_param = None, y_param = None, radius_param = None,
       size_param = Some 1, sort_param = None, category_group_code = None \<rparr>"

text \<open>
  \<open>getCoordinates\<close>: the address search first; the keyword search only when the address
  search answers with no document; \<open>null\<close> when both are empty, and, by the \<open>catch\<close>
  around the whole body, when either request fails. The result is the pair \<open>(x, y)\<close>.
\<close>

definition getCoordinates :: "env \<Rightarrow> jstring \<Rightarrow> (jstring \<times> jstring) option \<times> call list" where
  "getCoordinates env loc =
     (let key = kakaoRestApiKey env;
          c1 = GET_address_search key loc;
          c2 = GET_keyword_search key (lookup_params loc)
      in case address_search env key loc of
           Inl e \<Rightarrow> (None, [c1])
         | Inr (doc # ds) \<Rightarrow> (Some (x_doc doc, y_doc doc), [c1])
         | Inr [] \<Rightarrow>
             (case keyword_search env key (lookup_params loc) of
                Inl e \<Rightarrow> (None, [c1, c2])
              | Inr (place # ps) \<Rightarrow> (Some (x_place place, y_place place), [c1, c2])
              | Inr [] \<Rightarrow> (None, [c1, c2])))"

text \<open>The parameters of the place search proper.\<close>

definition search_params ::
  "Purpose \<Rightarrow> jstring \<Rightarrow> jstring option \<Rightarrow> int \<Rightarrow> int \<Rightarrow> jstring \<times> jstring \<Rightarrow> KeywordSearchParams" where
  "search_params p loc kw r n coords =
     \<lparr> query_param = loc @ ascii '' '' @ or_else kw (defaultKeyword p),
       x_param = Some (fst coords), y_param = Some (snd coords),
       radius_param = Some r, size_param = Some n,
       sort_param = Some (ascii ''distance''),
       category_group_code = categoryCode p \<rparr>"

text \<open>The \<open>catch\<close> of \<open>searchPlaces\<close>: an \<open>AxiosError\<close> is classified by its status,
  anything else is thrown again.\<close>

definition classify_search_error :: "exn \<Rightarrow> exn" where
  "classify_search_error e =
     (case e of
        AxiosError st m d \<Rightarrow>
          if st = Some 401 then Error ERR_KAKAO_AUTH
          else if st = Some 429 then Error ERR_RATE_LIMIT
          else Error (ERR_SEARCH_FAILED @ m)
      | _ \<Rightarrow> e)"

definition searchPlaces ::
  "env \<Rightarrow> Purpose \<Rightarrow> jstring \<Rightarrow> jstring option \<Rightarrow> int option \<Rightarrow> int option \<Rightarrow>
   (exn + KakaoPlace list \<times> jstring) \<times> call list" where
  "searchPlaces env p loc kw r n =
     (if kakaoRestApiKey env = [] then (Inl (Error ERR_KEY_NOT_CONFIGURED), [])
      else
        (case getCoordinates env loc of
           (None, cs) \<Rightarrow> (Inl (Error (ERR_LOCATION_NOT_FOUND @ loc)), cs)
         | (Some coords, cs) \<Rightarrow>
             (let ps = search_params p loc kw
                         (case r of None \<Rightarrow> 500 | Some v \<Rightarrow> v)
                         (case n of None \<Rightarrow> 5 | Some v \<Rightarrow> v) coords;
                  c = GET_keyword_search (kakaoRestApiKey env) ps
              in case keyword_search env (kakaoRestApiKey env) ps of
                   Inr docs \<Rightarrow> (Inr (docs, query_param ps), cs @ [c])
                 | Inl e \<Rightarrow> (Inl (classify_search_error e), cs @ [c]))))"

definition processPlace :: "KakaoPlace \<Rightarrow> ProcessedPlace" where
  "processPlace place =
     \<lparr> ProcessedPlace.name = place_name place,
       ProcessedPlace.address = KakaoPlace.address_name place,
       ProcessedPlace.roadAddress =
         (if road_address_name place = [] then KakaoPlace.address_name place
          else road_address_name place),
       ProcessedPlace.phone =
         (if KakaoPlace.phone place = [] then NO_INFO else KakaoPlace.phone place),
       ProcessedPlace.category = category_name place,
       ProcessedPlace.distance =
         (case KakaoPlace.distance place of
            None \<Rightarrow> NO_INFO
          | Some d \<Rightarrow> if d = [] then NO_INFO else d @ ascii ''m''),
       ProcessedPlace.mapUrl = place_url place,
       ProcessedPlace.coordinates = \<lparr> latitude = y_place place, longitude = x_place place \<rparr> \<rparr>"

definition searchProductivitySpots ::
  "env \<Rightarrow> Purpose \<Rightarrow> jstring \<Rightarrow> jstring option \<Rightarrow> int option \<Rightarrow> int option \<Rightarrow>
   (exn + ProcessedPlace list \<times> jstring \<times> nat) \<times> call list" where
  "searchProductivitySpots env p loc kw r n =
     (case searchPlaces env p loc kw r n of
        (Inl e, cs) \<Rightarrow> (Inl e, cs)
      | (Inr (docs, q), cs) \<Rightarrow> (Inr (map processPlace docs, q, length docs), cs))"

section \<open>Calendar events (services/kakaoCalendarApi.ts)\<close>

definition ERR_TOKEN_REQUIRED :: jstring where
  "ERR_TOKEN_REQUIRED = ascii ''Access Token'' @ [0xC774] @ ascii '' '' @
     [0xD544, 0xC694, 0xD569, 0xB2C8, 0xB2E4] @ ascii ''. PlayMCP'' @ [0xB97C] @
     ascii '' '' @ [0xD1B5, 0xD574] @ ascii '' '' @ [0xCE74, 0xCE74, 0xC624] @ ascii '' '' @
     [0xB85C, 0xADF8, 0xC778, 0xC744] @ ascii '' '' @ [0xD574, 0xC8FC, 0xC138, 0xC694] @
     ascii ''.''"
definition ERR_TOKEN_EXPIRED :: jstring where
  "ERR_TOKEN_EXPIRED = [0xCE74, 0xCE74, 0xC624] @ ascii '' '' @ [0xC778, 0xC99D, 0xC774] @
     ascii '' '' @ [0xB9CC, 0xB8CC, 0xB418, 0xC5C8, 0xC2B5, 0xB2C8, 0xB2E4] @ ascii ''. '' @
     [0xB2E4, 0xC2DC] @ ascii '' '' @
     [0xB85C, 0xADF8, 0xC778, 0xD574, 0xC8FC, 0xC138, 0xC694] @ ascii ''.''"
definition ERR_CALENDAR_SCOPE :: jstring where
  "ERR_CALENDAR_SCOPE = [0xD1A1, 0xCE98, 0xB9B0, 0xB354] @ ascii '' '' @
     [0xAD8C, 0xD55C, 0xC774] @ ascii '' '' @ [0xC5C6, 0xC2B5, 0xB2C8, 0xB2E4] @
     ascii ''. PlayMCP'' @ [0xC5D0, 0xC11C] @ ascii '' talk_calendar '' @
     [0xAD8C, 0xD55C, 0xC744] @ ascii '' '' @
     [0xD5C8, 0xC6A9, 0xD574, 0xC8FC, 0xC138, 0xC694] @ ascii ''.''"
definition ERR_EVENT_FAILED :: jstring where
  "ERR_EVENT_FAILED = [0xC77C, 0xC815] @ ascii '' '' @ [0xC0DD, 0xC131] @ ascii '' '' @
     [0xC2E4, 0xD328] @ ascii '': ''"
definition ERR_BAD_REQUEST :: jstring where
  "ERR_BAD_REQUEST = [0xC798, 0xBABB, 0xB41C] @ ascii '' '' @
     [0xC694, 0xCCAD, 0xC785, 0xB2C8, 0xB2E4] @ ascii ''.''"
text \<open>
  \<open>Math.round\<close> rounds to the nearest integer, a half towards plus infinity. The
  quotient \<open>minutes / 5\<close> of an integer is never within a tenth of a half, so the double
  the runtime computes rounds as the exact quotient does.
\<close>

definition Math_round :: "rat \<Rightarrow> int" where
  "Math_round v = \<lfloor>v + 1 / 2\<rfloor>"

definition roundToFiveMinutes :: "int \<Rightarrow> int" where
  "roundToFiveMinutes minutes = Math_round (of_int minutes / 5) * 5"

definition formatStartTime :: "env \<Rightarrow> jstring \<Rightarrow> exn + jstring" where
  "formatStartTime env start = iso_after env start 0"

definition calculateEndTime :: "env \<Rightarrow> jstring \<Rightarrow> int \<Rightarrow> exn + jstring" where
  "calculateEndTime env start durationMinutes = iso_after env start durationMinutes"

record CalendarOptions =
  locationName :: "jstring option"
  locationAddress :: "jstring option"
  reminderMinutes :: "int option"
  color :: "CalendarColor option"
  description :: "jstring option"

text \<open>The event object that \<open>createCalendarEvent\<close> builds before it posts it.\<close>

definition build_event :: "jstring \<Rightarrow> jstring \<Rightarrow> jstring \<Rightarrow> CalendarOptions \<Rightarrow> CalendarEvent" where
  "build_event ttl formattedStartTime endTm options =
     (let r = roundToFiveMinutes
                (case reminderMinutes options of None \<Rightarrow> 15 | Some m \<Rightarrow> m)
      in \<lparr> CalendarEvent.title = ttl,
           CalendarEvent.time =
             \<lparr> start_at = formattedStartTime, end_at = endTm,
               time_zone = ascii ''Asia/Seoul'', all_day = False \<rparr>,
           CalendarEvent.description = truthy (CalendarOptions.description options),
           CalendarEvent.location =
             (case truthy (locationName options) of
                None \<Rightarrow> None
              | Some n \<Rightarrow>
                  Some \<lparr> CalendarEventLocation.name = n,
                         CalendarEventLocation.address = truthy (locationAddress options) \<rparr>),
           CalendarEvent.reminders = (if 0 < r then Some [r] else None),
           CalendarEvent.color =
             (case CalendarOptions.color options of None \<Rightarrow> BLUE | Some c \<Rightarrow> c) \<rparr>)"

definition classify_calendar_error :: "exn \<Rightarrow> exn" where
  "classify_calendar_error e =
     (case e of
        AxiosError st m d \<Rightarrow>
          if st = Some 401 then Error ERR_TOKEN_EXPIRED
          else if st = Some 403 then Error ERR_CALENDAR_SCOPE
          else if st = Some 400 then Error (ERR_EVENT_FAILED @ or_else d ERR_BAD_REQUEST)
          else Error (ERR_EVENT_FAILED @ m)
      | _ \<Rightarrow> e)"

definition createCalendarEvent ::
  "env \<Rightarrow> jstring \<Rightarrow> jstring \<Rightarrow> jstring \<Rightarrow> int \<Rightarrow> CalendarOptions \<Rightarrow>
   (exn + jstring) \<times> call list" where
  "createCalendarEvent env accessToken ttl start durationMinutes options =
     (if accessToken = [] then (Inl (Error ERR_TOKEN_REQUIRED), [])
      else
        (case formatStartTime env start of
           Inl e \<Rightarrow> (Inl e, [])
         | Inr formattedStartTime \<Rightarrow>
             (case calculateEndTime env formattedStartTime durationMinutes of
                Inl e \<Rightarrow> (Inl e, [])
              | Inr endTm \<Rightarrow>
                  (let event = build_event ttl formattedStartTime endTm options;
                       c = POST_create_event accessToken event
                   in case create_event env accessToken event of
                        Inr event_id \<Rightarrow> (Inr event_id, [c])
                      | Inl e \<Rightarrow> (Inl (classify_calendar_error e), [c])))))"

section \<open>Messages (services/kakaoMessageApi.ts)\<close>

definition ENC_0 :: jstring where
  "ENC_0 = [0xC624, 0xB298] @ ascii '' '' @ [0xD558, 0xB8E8, 0xB3C4] @ ascii '' '' @
     [0xAC13, 0xC0DD] @ ascii '' '' @ [0xB2EC, 0xC131] @ ascii ''!''"
definition ENC_1 :: jstring where
  "ENC_1 = [0xC791, 0xC740] @ ascii '' '' @ [0xC2E4, 0xCC9C, 0xC774] @ ascii '' '' @
     [0xD070] @ ascii '' '' @ [0xBCC0, 0xD654, 0xB97C] @ ascii '' '' @
     [0xB9CC, 0xB4ED, 0xB2C8, 0xB2E4]"
definition ENC_2 :: jstring where
  "ENC_2 = [0xAFB8, 0xC900, 0xD568, 0xC774] @ ascii '' '' @ [0xC2E4, 0xB825, 0xC774] @
     ascii '' '' @ [0xB429, 0xB2C8, 0xB2E4]"
definition ENC_3 :: jstring where
  "ENC_3 = [0xC624, 0xB298, 0xC758] @ ascii '' '' @ [0xB178, 0xB825, 0xC774] @ ascii '' '' @
     [0xB0B4, 0xC77C, 0xC758] @ ascii '' '' @ [0xB098, 0xB97C] @ ascii '' '' @
     [0xB9CC, 0xB4ED, 0xB2C8, 0xB2E4]"
definition ENC_4 :: jstring where
  "ENC_4 = [0xD560] @ ascii '' '' @ [0xC218] @ ascii '' '' @ [0xC788, 0xB2E4] @
     ascii ''! '' @ [0xD30C, 0xC774, 0xD305] @ ascii ''!''"
definition ENC_5 :: jstring where
  "ENC_5 = [0xC2DC, 0xC791, 0xC774] @ ascii '' '' @ [0xBC18, 0xC774, 0xB2E4] @ ascii ''!''"
definition ENC_6 :: jstring where
  "ENC_6 = [0xD3EC, 0xAE30, 0xD558, 0xC9C0] @ ascii '' '' @ [0xC54A, 0xB294] @ ascii '' '' @
     [0xB2F9, 0xC2E0, 0xC774] @ ascii '' '' @ [0xBA4B, 0xC9D1, 0xB2C8, 0xB2E4]"
definition ENCOURAGEMENT_MESSAGES :: "jstring list" where
  "ENCOURAGEMENT_MESSAGES = [ENC_0, ENC_1, ENC_2, ENC_3, ENC_4, ENC_5, ENC_6]"

text \<open>\<open>Math.floor(Math.random() * 7)\<close> is one of 0 to 6.\<close>

definition getRandomEncouragement :: "env \<Rightarrow> jstring" where
  "getRandomEncouragement env =
     ENCOURAGEMENT_MESSAGES ! (random_index env mod length ENCOURAGEMENT_MESSAGES)"

definition FEED_TITLE :: jstring where
  "FEED_TITLE = [0xC624, 0xB298, 0xC758] @ ascii '' '' @ [0xAC13, 0xC0DD] @ ascii '' '' @
     [0xBAA9, 0xD45C]"
definition FEED_PLACE :: jstring where
  "FEED_PLACE = [0x000A, 0x000A, 0xC7A5, 0xC18C] @ ascii '': ''"
definition BUTTON_TITLE :: jstring where
  "BUTTON_TITLE = [0xC9C0, 0xB3C4] @ ascii '' '' @ [0xBCF4, 0xAE30]"
definition ERR_MESSAGE_SCOPE :: jstring where
  "ERR_MESSAGE_SCOPE = [0xBA54, 0xC2DC, 0xC9C0] @ ascii '' '' @ [0xC804, 0xC1A1] @
     ascii '' '' @ [0xAD8C, 0xD55C, 0xC774] @ ascii '' '' @
     [0xC5C6, 0xC2B5, 0xB2C8, 0xB2E4] @ ascii ''. PlayMCP'' @ [0xC5D0, 0xC11C] @
     ascii '' talk_message '' @ [0xAD8C, 0xD55C, 0xC744] @ ascii '' '' @
     [0xD5C8, 0xC6A9, 0xD574, 0xC8FC, 0xC138, 0xC694] @ ascii ''.''"
definition ERR_MESSAGE_FAILED :: jstring where
  "ERR_MESSAGE_FAILED = [0xBA54, 0xC2DC, 0xC9C0] @ ascii '' '' @ [0xC804, 0xC1A1] @
     ascii '' '' @ [0xC2E4, 0xD328] @ ascii '': ''"
definition CARD_SENT :: jstring where
  "CARD_SENT = [0xB2E4, 0xC9D0] @ ascii '' '' @ [0xCE74, 0xB4DC, 0xAC00] @ ascii '' '' @
     [0xCE74, 0xCE74, 0xC624, 0xD1A1] @ ascii '' '' @ [0x0027, 0xB098, 0xC640, 0xC758] @
     ascii '' '' @ [0xCC44, 0xD305, 0x0027, 0xC73C, 0xB85C] @ ascii '' '' @
     [0xC804, 0xC1A1, 0xB418, 0xC5C8, 0xC2B5, 0xB2C8, 0xB2E4] @ ascii ''!''"
definition FALLBACK_URL :: jstring where
  "FALLBACK_URL = ascii ''https://playmcp.kakao.com''"

definition fallback_link :: "jstring option \<Rightarrow> MessageLink" where
  "fallback_link locationUrl =
     \<lparr> web_url = or_else locationUrl FALLBACK_URL,
       mobile_web_url = or_else locationUrl FALLBACK_URL \<rparr>"

definition createFeedTemplate ::
  "jstring \<Rightarrow> jstring \<Rightarrow> jstring option \<Rightarrow> jstring option \<Rightarrow> FeedTemplate" where
  "createFeedTemplate g e locName locationUrl =
     \<lparr> FeedTemplate.object_type = ascii ''feed'',
       FeedTemplate.content =
         \<lparr> MessageContent.title = FEED_TITLE,
           MessageContent.description =
             (case truthy locName of
                Some n \<Rightarrow> g @ FEED_PLACE @ n @ [0x000A, 0x000A] @ e
              | None \<Rightarrow> g @ [0x000A, 0x000A] @ e),
           MessageContent.link = fallback_link locationUrl \<rparr>,
       FeedTemplate.buttons =
         (case truthy locationUrl of
            Some u \<Rightarrow>
              Some [\<lparr> MessageButton.title = BUTTON_TITLE,
                      MessageButton.link = \<lparr> web_url = u, mobile_web_url = u \<rparr> \<rparr>]
          | None \<Rightarrow> None) \<rparr>"

text \<open>The heading literal of the text template, in brackets, and two newlines
  (13 code units).\<close>

definition TEXT_HEADING :: jstring where
  "TEXT_HEADING = ascii ''['' @ FEED_TITLE @ ascii '']'' @ [0x000A, 0x000A]"

text \<open>The template literal of \<open>createTextTemplate\<close>, before the cut.\<close>

definition composeText :: "jstring \<Rightarrow> jstring \<Rightarrow> jstring" where
  "composeText g e = TEXT_HEADING @ g @ [0x000A, 0x000A] @ e"

definition createTextTemplate :: "jstring \<Rightarrow> jstring \<Rightarrow> jstring option \<Rightarrow> TextTemplate" where
  "createTextTemplate g e locationUrl =
     \<lparr> TextTemplate.object_type = ascii ''text'',
       TextTemplate.text = take 200 (composeText g e),
       TextTemplate.link = fallback_link locationUrl \<rparr>"

record CommitmentOptions =
  locationName :: "jstring option"
  locationUrl :: "jstring option"
  encouragement :: "jstring option"
  templateType :: "MessageTemplateType option"

definition build_template :: "env \<Rightarrow> jstring \<Rightarrow> CommitmentOptions \<Rightarrow> MessageTemplate" where
  "build_template env g options =
     (let e = or_else (CommitmentOptions.encouragement options) (getRandomEncouragement env)
      in case templateType options of
           Some TextType \<Rightarrow> Text (createTextTemplate g e (locationUrl options))
         | _ \<Rightarrow> Feed (createFeedTemplate g e (CommitmentOptions.locationName options)
                        (locationUrl options)))"

definition classify_message_error :: "exn \<Rightarrow> exn" where
  "classify_message_error e =
     (case e of
        AxiosError st m d \<Rightarrow>
          if st = Some 401 then Error ERR_TOKEN_EXPIRED
          else if st = Some 403 then Error ERR_MESSAGE_SCOPE
          else Error (ERR_MESSAGE_FAILED @ m)
      | _ \<Rightarrow> e)"

definition sendCommitmentCard ::
  "env \<Rightarrow> jstring \<Rightarrow> jstring \<Rightarrow> CommitmentOptions \<Rightarrow> (exn + bool \<times> jstring) \<times> call list" where
  "sendCommitmentCard env accessToken g options =
     (if accessToken = [] then (Inl (Error ERR_TOKEN_REQUIRED), [])
      else
        (let template = build_template env g options;
             c = POST_send_to_me accessToken template
         in case send_to_me env accessToken template of
              Inr u \<Rightarrow> (Inr (True, CARD_SENT), [c])
            | Inl e \<Rightarrow> (Inl (classify_message_error e), [c])))"

text \<open>The text template that the message tool posts for a goal, the optional
  encouragement and the optional URL of its input.\<close>

definition posted_text ::
  "env \<Rightarrow> jstring \<Rightarrow> jstring option \<Rightarrow> jstring option \<Rightarrow> TextTemplate" where
  "posted_text env g enc url =
     createTextTemplate g (or_else enc (getRandomEncouragement env)) url"

section \<open>Rendering results (services/formatters.ts)\<close>

definition LABEL_STUDY :: jstring where
  "LABEL_STUDY = [0xACF5, 0xBD80]"
definition LABEL_EXERCISE :: jstring where
  "LABEL_EXERCISE = [0xC6B4, 0xB3D9]"
definition LABEL_READING :: jstring where
  "LABEL_READING = [0xB3C5, 0xC11C]"
definition LABEL_WORK :: jstring where
  "LABEL_WORK = [0xC5C5, 0xBB34]"
fun PURPOSE_LABELS :: "Purpose \<Rightarrow> jstring" where
  "PURPOSE_LABELS study = LABEL_STUDY"
| "PURPOSE_LABELS exercise = LABEL_EXERCISE"
| "PURPOSE_LABELS reading = LABEL_READING"
| "PURPOSE_LABELS work = LABEL_WORK"

definition MD_TITLE_SUFFIX :: jstring where
  "MD_TITLE_SUFFIX = ascii '' '' @ [0xC7A5, 0xC18C] @ ascii '' '' @ [0xAC80, 0xC0C9] @
     ascii '' '' @ [0xACB0, 0xACFC]"
definition MD_QUERY :: jstring where
  "MD_QUERY = ascii ''**'' @ [0xAC80, 0xC0C9, 0xC5B4] @ ascii ''**: ''"
definition MD_LOCATION :: jstring where
  "MD_LOCATION = ascii ''**'' @ [0xC704, 0xCE58] @ ascii ''**: ''"
definition MD_COUNT :: jstring where
  "MD_COUNT = ascii ''**'' @ [0xAC80, 0xC0C9] @ ascii '' '' @ [0xACB0, 0xACFC] @
     ascii ''**: ''"
definition MD_COUNT_UNIT :: jstring where
  "MD_COUNT_UNIT = [0xAC1C]"
definition MD_NO_RESULTS :: jstring where
  "MD_NO_RESULTS = [0xAC80, 0xC0C9] @ ascii '' '' @ [0xACB0, 0xACFC, 0xAC00] @ ascii '' '' @
     [0xC5C6, 0xC2B5, 0xB2C8, 0xB2E4] @ ascii ''. '' @ [0xB2E4, 0xB978] @ ascii '' '' @
     [0xD0A4, 0xC6CC, 0xB4DC, 0xB098] @ ascii '' '' @ [0xC704, 0xCE58, 0xB85C] @
     ascii '' '' @ [0xB2E4, 0xC2DC] @ ascii '' '' @
     [0xAC80, 0xC0C9, 0xD574, 0xBCF4, 0xC138, 0xC694] @ ascii ''.''"
definition MD_CATEGORY :: jstring where
  "MD_CATEGORY = ascii ''- **'' @ [0xCE74, 0xD14C, 0xACE0, 0xB9AC] @ ascii ''**: ''"
definition MD_ADDRESS :: jstring where
  "MD_ADDRESS = ascii ''- **'' @ [0xC8FC, 0xC18C] @ ascii ''**: ''"
definition MD_DISTANCE :: jstring where
  "MD_DISTANCE = ascii ''- **'' @ [0xAC70, 0xB9AC] @ ascii ''**: ''"
definition MD_PHONE :: jstring where
  "MD_PHONE = ascii ''- **'' @ [0xC804, 0xD654] @ ascii ''**: ''"
definition MD_MAP :: jstring where
  "MD_MAP = ascii ''- **'' @ [0xC9C0, 0xB3C4] @ ascii ''**: ['' @
     [0xCE74, 0xCE74, 0xC624, 0xB9F5, 0xC5D0, 0xC11C] @ ascii '' '' @ [0xBCF4, 0xAE30] @
     ascii ''](''"
definition MD_FOOTER :: jstring where
  "MD_FOOTER = ascii ''*'' @ [0xC7A5, 0xC18C, 0xB97C] @ ascii '' '' @
     [0xC120, 0xD0DD, 0xD558, 0xBA74] @ ascii '' '' @ [0xC77C, 0xC815, 0xC744] @
     ascii '' '' @ [0xB4F1, 0xB85D, 0xD560] @ ascii '' '' @ [0xC218] @ ascii '' '' @
     [0xC788, 0xC2B5, 0xB2C8, 0xB2E4] @ ascii ''.*''"
text \<open>The objects handed to \<open>JSON.stringify\<close>, key by key; an absent field has no key.\<close>

fun purpose_name :: "Purpose \<Rightarrow> jstring" where
  "purpose_name study = ascii ''study''"
| "purpose_name exercise = ascii ''exercise''"
| "purpose_name reading = ascii ''reading''"
| "purpose_name work = ascii ''work''"

fun format_name :: "ResponseFormat \<Rightarrow> jstring" where
  "format_name markdown = ascii ''markdown''"
| "format_name json = ascii ''json''"

definition opt_key :: "jstring \<Rightarrow> jstring option \<Rightarrow> (jstring \<times> jvalue) list" where
  "opt_key k v = (case v of None \<Rightarrow> [] | Some s \<Rightarrow> [(k, JStr s)])"

definition json_of_place :: "ProcessedPlace \<Rightarrow> jvalue" where
  "json_of_place pl =
     JObj [(ascii ''name'', JStr (ProcessedPlace.name pl)),
           (ascii ''address'', JStr (ProcessedPlace.address pl)),
           (ascii ''roadAddress'', JStr (roadAddress pl)),
           (ascii ''phone'', JStr (ProcessedPlace.phone pl)),
           (ascii ''category'', JStr (category pl)),
           (ascii ''distance'', JStr (ProcessedPlace.distance pl)),
           (ascii ''mapUrl'', JStr (mapUrl pl)),
           (ascii ''coordinates'',
              JObj [(ascii ''latitude'', JStr (latitude (coordinates pl))),
                    (ascii ''longitude'', JStr (longitude (coordinates pl)))])]"

definition json_of_search :: "SearchSpotOutput \<Rightarrow> jvalue" where
  "json_of_search out =
     JObj [(ascii ''query'', JStr (query out)),
           (ascii ''purpose'', JStr (purpose_name (SearchSpotOutput.purpose out))),
           (ascii ''location'', JStr (SearchSpotOutput.location out)),
           (ascii ''total'', JNum (of_nat (total out))),
           (ascii ''places'', JArr (map json_of_place (places out)))]"

text \<open>The lines of one place; \<open>i\<close> is its number, from 1.\<close>

definition place_lines :: "nat \<times> ProcessedPlace \<Rightarrow> jstring list" where
  "place_lines ip =
     (case ip of (i, pl) \<Rightarrow>
        [ascii ''## '' @ digits i @ ascii ''. '' @ ProcessedPlace.name pl,
         [],
         MD_CATEGORY @ category pl,
         MD_ADDRESS @ roadAddress pl,
         MD_DISTANCE @ ProcessedPlace.distance pl,
         MD_PHONE @ ProcessedPlace.phone pl,
         MD_MAP @ mapUrl pl @ ascii '')'',
         []])"

definition search_header :: "SearchSpotOutput \<Rightarrow> jstring list" where
  "search_header out =
     [ascii ''# '' @ PURPOSE_LABELS (SearchSpotOutput.purpose out) @ MD_TITLE_SUFFIX,
      [],
      MD_QUERY @ query out,
      MD_LOCATION @ SearchSpotOutput.location out,
      MD_COUNT @ digits (total out) @ MD_COUNT_UNIT,
      []]"

definition formatSearchSpotResult :: "env \<Rightarrow> SearchSpotOutput \<Rightarrow> ResponseFormat \<Rightarrow> jstring" where
  "formatSearchSpotResult env out format =
     (if format = json then JSON_stringify env (json_of_search out)
      else if places out = [] then join_lines (search_header out @ [MD_NO_RESULTS])
      else join_lines
             (search_header out @
              concat (map place_lines (enumerate 1 (places out))) @
              [ascii ''---'', MD_FOOTER]))"

definition MD_EVENT_DONE :: jstring where
  "MD_EVENT_DONE = ascii ''# '' @ [0xC77C, 0xC815] @ ascii '' '' @ [0xB4F1, 0xB85D] @
     ascii '' '' @ [0xC644, 0xB8CC]"
definition MD_EVENT_TITLE :: jstring where
  "MD_EVENT_TITLE = ascii ''**'' @ [0xC81C, 0xBAA9] @ ascii ''**: ''"
definition MD_EVENT_START :: jstring where
  "MD_EVENT_START = ascii ''**'' @ [0xC2DC, 0xC791] @ ascii ''**: ''"
definition MD_EVENT_END :: jstring where
  "MD_EVENT_END = ascii ''**'' @ [0xC885, 0xB8CC] @ ascii ''**: ''"
definition MD_EVENT_PLACE :: jstring where
  "MD_EVENT_PLACE = ascii ''**'' @ [0xC7A5, 0xC18C] @ ascii ''**: ''"
definition MD_EVENT_REMINDER :: jstring where
  "MD_EVENT_REMINDER = ascii ''**'' @ [0xC54C, 0xB9BC] @ ascii ''**: ''"
definition MD_MINUTES_BEFORE :: jstring where
  "MD_MINUTES_BEFORE = [0xBD84] @ ascii '' '' @ [0xC804]"
definition EVENT_REGISTERED :: jstring where
  "EVENT_REGISTERED = [0xD1A1, 0xCE98, 0xB9B0, 0xB354, 0xC5D0] @ ascii '' '' @
     [0xC77C, 0xC815, 0xC774] @ ascii '' '' @
     [0xB4F1, 0xB85D, 0xB418, 0xC5C8, 0xC2B5, 0xB2C8, 0xB2E4] @ ascii ''!''"
definition MD_EVENT_FAILED :: jstring where
  "MD_EVENT_FAILED = ascii ''# '' @ [0xC77C, 0xC815] @ ascii '' '' @ [0xB4F1, 0xB85D] @
     ascii '' '' @ [0xC2E4, 0xD328]"
definition json_of_block :: "BlockSessionOutput \<Rightarrow> jvalue" where
  "json_of_block out =
     JObj ([(ascii ''success'', JBool (BlockSessionOutput.success out))] @
           opt_key (ascii ''eventId'') (eventId out) @
           [(ascii ''title'', JStr (BlockSessionOutput.title out)),
            (ascii ''startTime'', JStr (startTime out)),
            (ascii ''endTime'', JStr (endTime out))] @
           opt_key (ascii ''location'') (BlockSessionOutput.location out) @
           [(ascii ''reminder'', JNum (of_int (reminder out))),
            (ascii ''message'', JStr (BlockSessionOutput.message out))])"

definition formatBlockSessionResult :: "env \<Rightarrow> BlockSessionOutput \<Rightarrow> ResponseFormat \<Rightarrow> jstring" where
  "formatBlockSessionResult env out format =
     (if format = json then JSON_stringify env (json_of_block out)
      else if BlockSessionOutput.success out then
        join_lines
          ([MD_EVENT_DONE, [],
            MD_EVENT_TITLE @ BlockSessionOutput.title out,
            MD_EVENT_START @ startTime out,
            MD_EVENT_END @ endTime out] @
           (case truthy (BlockSessionOutput.location out) of
              Some l \<Rightarrow> [MD_EVENT_PLACE @ l] | None \<Rightarrow> []) @
           [MD_EVENT_REMINDER @ show_int (reminder out) @ MD_MINUTES_BEFORE,
            [],
            EVENT_REGISTERED])
      else join_lines [MD_EVENT_FAILED, [], BlockSessionOutput.message out])"

definition MD_CARD_DONE :: jstring where
  "MD_CARD_DONE = ascii ''# '' @ [0xB2E4, 0xC9D0] @ ascii '' '' @ [0xCE74, 0xB4DC] @
     ascii '' '' @ [0xC804, 0xC1A1] @ ascii '' '' @ [0xC644, 0xB8CC]"
definition MD_CARD_GOAL :: jstring where
  "MD_CARD_GOAL = ascii ''**'' @ [0xC624, 0xB298, 0xC758] @ ascii '' '' @ [0xBAA9, 0xD45C] @
     ascii ''**: ''"
definition MD_CARD_CHEER :: jstring where
  "MD_CARD_CHEER = ascii ''**'' @ [0xC751, 0xC6D0] @ ascii '' '' @
     [0xBA54, 0xC2DC, 0xC9C0] @ ascii ''**: ''"
definition MD_CARD_CHECK :: jstring where
  "MD_CARD_CHECK = ascii ''*'' @ [0xCE74, 0xCE74, 0xC624, 0xD1A1] @ ascii '' '' @
     [0x0027, 0xB098, 0xC640, 0xC758] @ ascii '' '' @ [0xCC44, 0xD305, 0x0027, 0xC744] @
     ascii '' '' @ [0xD655, 0xC778, 0xD574, 0xBCF4, 0xC138, 0xC694] @ ascii ''!*''"
definition MD_CARD_FAILED :: jstring where
  "MD_CARD_FAILED = ascii ''# '' @ [0xB2E4, 0xC9D0] @ ascii '' '' @ [0xCE74, 0xB4DC] @
     ascii '' '' @ [0xC804, 0xC1A1] @ ascii '' '' @ [0xC2E4, 0xD328]"
definition json_of_commitment :: "SendCommitmentOutput \<Rightarrow> jvalue" where
  "json_of_commitment out =
     JObj ([(ascii ''success'', JBool (SendCommitmentOutput.success out)),
            (ascii ''goal'', JStr (SendCommitmentOutput.goal out))] @
           opt_key (ascii ''location'') (SendCommitmentOutput.location out) @
           [(ascii ''encouragement'', JStr (SendCommitmentOutput.encouragement out)),
            (ascii ''message'', JStr (SendCommitmentOutput.message out))])"

definition formatSendCommitmentResult ::
  "env \<Rightarrow> SendCommitmentOutput \<Rightarrow> ResponseFormat \<Rightarrow> jstring" where
  "formatSendCommitmentResult env out format =
     (if format = json then JSON_stringify env (json_of_commitment out)
      else if SendCommitmentOutput.success out then
        join_lines
          ([MD_CARD_DONE, [],
            MD_CARD_GOAL @ SendCommitmentOutput.goal out] @
           (case truthy (SendCommitmentOutput.location out) of
              Some l \<Rightarrow> [MD_EVENT_PLACE @ l] | None \<Rightarrow> []) @
           [MD_CARD_CHEER @ SendCommitmentOutput.encouragement out,
            [],
            SendCommitmentOutput.message out,
            [],
            MD_CARD_CHECK])
      else join_lines [MD_CARD_FAILED, [], SendCommitmentOutput.message out])"

section \<open>The registered tools (tools/*.ts)\<close>

text \<open>
  What a tool callback returns: the content, one text item, and the optional flag
  \<open>isError\<close>; \<open>None\<close> is a result object without that field.
\<close>

datatype content_item = TextContent jstring

record CallToolResult =
  content :: "content_item list"
  isError :: "bool option"

definition text_result :: "jstring \<Rightarrow> CallToolResult" where
  "text_result t = \<lparr> CallToolResult.content = [TextContent t], isError = None \<rparr>"

definition error_result :: "jstring \<Rightarrow> CallToolResult" where
  "error_result t = \<lparr> CallToolResult.content = [TextContent t], isError = Some True \<rparr>"

definition UNKNOWN_ERROR :: jstring where
  "UNKNOWN_ERROR = [0xC54C] @ ascii '' '' @ [0xC218] @ ascii '' '' @ [0xC5C6, 0xB294] @
     ascii '' '' @ [0xC624, 0xB958, 0xAC00] @ ascii '' '' @
     [0xBC1C, 0xC0DD, 0xD588, 0xC2B5, 0xB2C8, 0xB2E4] @ ascii ''.''"
definition ERROR_PREFIX :: jstring where
  "ERROR_PREFIX = [0xC624, 0xB958] @ ascii '': ''"
definition LOGIN_REQUIRED :: jstring where
  "LOGIN_REQUIRED = [0xC624, 0xB958] @ ascii '': '' @ [0xCE74, 0xCE74, 0xC624] @
     ascii '' '' @ [0xB85C, 0xADF8, 0xC778, 0xC774] @ ascii '' '' @
     [0xD544, 0xC694, 0xD569, 0xB2C8, 0xB2E4] @ ascii ''. PlayMCP'' @ [0xC5D0, 0xC11C] @
     ascii '' '' @ [0xCE74, 0xCE74, 0xC624] @ ascii '' '' @
     [0xACC4, 0xC815, 0xC73C, 0xB85C] @ ascii '' '' @
     [0xB85C, 0xADF8, 0xC778, 0xD574, 0xC8FC, 0xC138, 0xC694] @ ascii ''.''"
definition EVENT_DESCRIPTION :: jstring where
  "EVENT_DESCRIPTION = [0xAC13, 0xC0DD] @ ascii '' '' @ [0xBA54, 0xC774, 0xD2B8, 0xB85C] @
     ascii '' '' @ [0xB4F1, 0xB85D, 0xD55C] @ ascii '' '' @
     [0xC77C, 0xC815, 0xC785, 0xB2C8, 0xB2E4] @ ascii ''.'' @
     [0x000A, 0x000A, 0xBAA9, 0xD45C] @ ascii '': ''"
subsection \<open>tools/searchSpot.ts\<close>

definition searchSpotTool :: "env \<Rightarrow> jvalue \<Rightarrow> CallToolResult \<times> call list" where
  "searchSpotTool env params =
     (case SearchSpotInputSchema params of
        Inl is \<Rightarrow>
          (error_result (ERROR_PREFIX @ error_message env UNKNOWN_ERROR (ZodError is)), [])
      | Inr input \<Rightarrow>
          (case searchProductivitySpots env (SearchSpotInput.purpose input)
                  (SearchSpotInput.location input) (keyword input)
                  (Some (radius input)) (Some (limit input)) of
             (Inl e, cs) \<Rightarrow>
               (error_result (ERROR_PREFIX @ error_message env UNKNOWN_ERROR e), cs)
           | (Inr (pls, q, n), cs) \<Rightarrow>
               (text_result
                  (formatSearchSpotResult env
                     \<lparr> query = q,
                       SearchSpotOutput.purpose = SearchSpotInput.purpose input,
                       SearchSpotOutput.location = SearchSpotInput.location input,
                       total = n, places = pls \<rparr>
                     (response_format input)), cs)))"

subsection \<open>tools/blockSession.ts\<close>

definition failed_block :: "jstring \<Rightarrow> BlockSessionOutput" where
  "failed_block m =
     \<lparr> BlockSessionOutput.success = False, eventId = None,
       BlockSessionOutput.title = [], startTime = [], endTime = [],
       BlockSessionOutput.location = None, reminder = 0,
       BlockSessionOutput.message = m \<rparr>"

definition block_options :: "BlockSessionInput \<Rightarrow> CalendarOptions" where
  "block_options input =
     \<lparr> CalendarOptions.locationName = BlockSessionInput.location_name input,
       locationAddress = location_address input,
       reminderMinutes = Some (reminder_minutes input),
       CalendarOptions.color = Some (BlockSessionInput.color input),
       CalendarOptions.description = Some (EVENT_DESCRIPTION @ BlockSessionInput.title input) \<rparr>"

text \<open>The calendar call and the rendering of its confirmation, shared by the registered
  tool and the serverless dispatcher, whose bodies agree up to the failure texts.\<close>

definition block_session_body ::
  "env \<Rightarrow> jstring \<Rightarrow> BlockSessionInput \<Rightarrow> (exn + jstring) \<times> call list" where
  "block_session_body env accessToken input =
     (case createCalendarEvent env accessToken (BlockSessionInput.title input)
             (start_time input) (duration_minutes input) (block_options input) of
        (Inl e, cs) \<Rightarrow> (Inl e, cs)
      | (Inr event_id, cs) \<Rightarrow>
          (case iso_millis_after env (start_time input) (duration_minutes input) of
             Inl e \<Rightarrow> (Inl e, cs)
           | Inr endIso \<Rightarrow>
               (Inr (formatBlockSessionResult env
                       \<lparr> BlockSessionOutput.success = True, eventId = Some event_id,
                         BlockSessionOutput.title = BlockSessionInput.title input,
                         startTime = formatDateTime env (start_time input),
                         endTime = formatDateTime env endIso,
                         BlockSessionOutput.location = BlockSessionInput.location_name input,
                         reminder = reminder_minutes input,
                         BlockSessionOutput.message = EVENT_REGISTERED \<rparr>
                       markdown), cs)))"

definition blockSessionTool :: "env \<Rightarrow> jvalue \<Rightarrow> CallToolResult \<times> call list" where
  "blockSessionTool env params =
     (case BlockSessionInputSchema params of
        Inl is \<Rightarrow>
          (error_result
             (formatBlockSessionResult env
                (failed_block (error_message env UNKNOWN_ERROR (ZodError is))) markdown), [])
      | Inr input \<Rightarrow>
          (case truthy (KAKAO_ACCESS_TOKEN env) of
             None \<Rightarrow> (error_result LOGIN_REQUIRED, [])
           | Some accessToken \<Rightarrow>
               (case block_session_body env accessToken input of
                  (Inl e, cs) \<Rightarrow>
                    (error_result
                       (formatBlockSessionResult env
                          (failed_block (error_message env UNKNOWN_ERROR e)) markdown), cs)
                | (Inr t, cs) \<Rightarrow> (text_result t, cs))))"

subsection \<open>tools/sendCommitment.ts\<close>

definition failed_commitment :: "jstring \<Rightarrow> SendCommitmentOutput" where
  "failed_commitment m =
     \<lparr> SendCommitmentOutput.success = False, SendCommitmentOutput.goal = [],
       SendCommitmentOutput.location = None, SendCommitmentOutput.encouragement = [],
       SendCommitmentOutput.message = m \<rparr>"

definition send_commitment_body ::
  "env \<Rightarrow> jstring \<Rightarrow> SendCommitmentInput \<Rightarrow> (exn + jstring) \<times> call list" where
  "send_commitment_body env accessToken input =
     (let e = or_else (SendCommitmentInput.encouragement input) (getRandomEncouragement env)
      in case sendCommitmentCard env accessToken (SendCommitmentInput.goal input)
                \<lparr> CommitmentOptions.locationName = SendCommitmentInput.location_name input,
                  locationUrl = location_url input,
                  CommitmentOptions.encouragement = Some e,
                  templateType = Some (template_type input) \<rparr> of
           (Inl ex, cs) \<Rightarrow> (Inl ex, cs)
         | (Inr (ok, m), cs) \<Rightarrow>
             (Inr (formatSendCommitmentResult env
                     \<lparr> SendCommitmentOutput.success = ok,
                       SendCommitmentOutput.goal = SendCommitmentInput.goal input,
                       SendCommitmentOutput.location = SendCommitmentInput.location_name input,
                       SendCommitmentOutput.encouragement = e,
                       SendCommitmentOutput.message = m \<rparr>
                     markdown), cs))"

definition sendCommitmentTool :: "env \<Rightarrow> jvalue \<Rightarrow> CallToolResult \<times> call list" where
  "sendCommitmentTool env params =
     (case SendCommitmentInputSchema (is_url env) params of
        Inl is \<Rightarrow>
          (error_result
             (formatSendCommitmentResult env
                (failed_commitment (error_message env UNKNOWN_ERROR (ZodError is))) markdown), [])
      | Inr input \<Rightarrow>
          (case truthy (KAKAO_ACCESS_TOKEN env) of
             None \<Rightarrow> (error_result LOGIN_REQUIRED, [])
           | Some accessToken \<Rightarrow>
               (case send_commitment_body env accessToken input of
                  (Inl e, cs) \<Rightarrow>
                    (error_result
                       (formatSendCommitmentResult env
                          (failed_commitment (error_message env UNKNOWN_ERROR e)) markdown), cs)
                | (Inr t, cs) \<Rightarrow> (text_result t, cs))))"

section \<open>The serverless dispatcher (api handler with schemas)\<close>

definition P0_INPUT_ERROR :: jstring where
  "P0_INPUT_ERROR = [0x274C] @ ascii '' '' @ [0xC785, 0xB825] @ ascii '' '' @
     [0xC624, 0xB958] @ ascii '': ''"
definition P0_SEARCH_FAILED :: jstring where
  "P0_SEARCH_FAILED = [0x274C] @ ascii '' '' @ [0xC7A5, 0xC18C] @ ascii '' '' @
     [0xAC80, 0xC0C9] @ ascii '' '' @ [0xC2E4, 0xD328] @ ascii '': ''"
definition P0_UNKNOWN_TOOL :: jstring where
  "P0_UNKNOWN_TOOL = [0x274C] @ ascii '' '' @ [0xC54C] @ ascii '' '' @ [0xC218] @
     ascii '' '' @ [0xC5C6, 0xB294] @ ascii '' '' @ [0xB3C4, 0xAD6C] @ ascii '': ''"
definition P0_LOGIN_REQUIRED :: jstring where
  "P0_LOGIN_REQUIRED = [0x274C] @ ascii '' '' @ [0xC624, 0xB958] @ ascii '': '' @
     [0xCE74, 0xCE74, 0xC624] @ ascii '' '' @ [0xB85C, 0xADF8, 0xC778, 0xC774] @
     ascii '' '' @ [0xD544, 0xC694, 0xD569, 0xB2C8, 0xB2E4] @ ascii ''. PlayMCP'' @
     [0xC5D0, 0xC11C] @ ascii '' '' @ [0xCE74, 0xCE74, 0xC624] @ ascii '' '' @
     [0xACC4, 0xC815, 0xC73C, 0xB85C] @ ascii '' '' @
     [0xB85C, 0xADF8, 0xC778, 0xD574, 0xC8FC, 0xC138, 0xC694] @ ascii ''.''"
definition P0_EVENT_FAILED :: jstring where
  "P0_EVENT_FAILED = [0x274C] @ ascii '' '' @ [0xC77C, 0xC815] @ ascii '' '' @
     [0xB4F1, 0xB85D] @ ascii '' '' @ [0xC2E4, 0xD328] @ ascii '': ''"
definition P0_MESSAGE_FAILED :: jstring where
  "P0_MESSAGE_FAILED = [0x274C] @ ascii '' '' @ [0xBA54, 0xC2DC, 0xC9C0] @ ascii '' '' @
     [0xC804, 0xC1A1] @ ascii '' '' @ [0xC2E4, 0xD328] @ ascii '': ''"
definition P0_UNKNOWN_ERROR :: jstring where
  "P0_UNKNOWN_ERROR = [0xC54C] @ ascii '' '' @ [0xC218] @ ascii '' '' @ [0xC5C6, 0xB294] @
     ascii '' '' @ [0xC624, 0xB958]"
text \<open>\<open>args.radius || 500\<close> on a number: absent and 0 are falsy.\<close>

definition or_default :: "int option \<Rightarrow> int \<Rightarrow> int" where
  "or_default v d = (case v of None \<Rightarrow> d | Some i \<Rightarrow> if i = 0 then d else i)"

text \<open>
  The search runner of this dispatcher. The query it hands to its search helper is the
  entry of \<open>PURPOSE_KEYWORDS\<close>, after the keyword and a space when a keyword is given;
  the location goes to \<open>coordinateLookup\<close> only.
\<close>

definition search_query_api :: "api_helpers \<Rightarrow> Purpose \<Rightarrow> jstring option \<Rightarrow> jstring" where
  "search_query_api h p kw =
     (let purposeKeyword = or_else (PURPOSE_KEYWORDS h p) []
      in case truthy kw of
           Some k \<Rightarrow> trim (k @ ascii '' '' @ purposeKeyword)
         | None \<Rightarrow> purposeKeyword)"

definition json_of_place_api :: "KakaoPlace \<Rightarrow> jvalue" where
  "json_of_place_api pl =
     JObj ([(ascii ''name'', JStr (place_name pl)),
            (ascii ''address'',
               JStr (if road_address_name pl = [] then KakaoPlace.address_name pl
                     else road_address_name pl))] @
           opt_key (ascii ''distance'') (KakaoPlace.distance pl) @
           opt_key (ascii ''phone'') (truthy (Some (KakaoPlace.phone pl))) @
           [(ascii ''url'', JStr (place_url pl)),
            (ascii ''category'', JStr (category_name pl))])"

definition json_of_search_api :: "Purpose \<Rightarrow> jstring \<Rightarrow> KakaoPlace list \<Rightarrow> jvalue" where
  "json_of_search_api p loc pls =
     JObj [(ascii ''purpose'', JStr (purpose_name p)),
           (ascii ''location'', JStr loc),
           (ascii ''count'', JNum (of_nat (length pls))),
           (ascii ''places'', JArr (map json_of_place_api pls))]"

definition executeSearchSpot_api :: "env \<Rightarrow> SearchSpotInput \<Rightarrow> jstring \<times> call list" where
  "executeSearchSpot_api env args =
     (let h = helpers env;
          failed = (\<lambda>e. P0_SEARCH_FAILED @ error_message env P0_UNKNOWN_ERROR e)
      in case coordinateLookup h (SearchSpotInput.location args) of
           (Inl e, cs) \<Rightarrow> (failed e, cs)
         | (Inr (lon, lat), cs) \<Rightarrow>
             (case searchPlaces_helper h
                     (search_query_api h (SearchSpotInput.purpose args) (keyword args))
                     lon lat
                     (or_default (Some (radius args)) 500)
                     (or_default (Some (limit args)) 5)
                     (PURPOSE_CATEGORY_MAP h (SearchSpotInput.purpose args)) of
                (Inl e, cs2) \<Rightarrow> (failed e, cs @ cs2)
              | (Inr pls, cs2) \<Rightarrow>
                  (case formatSearchSpotResult_helper h
                          (json_of_search_api (SearchSpotInput.purpose args)
                             (SearchSpotInput.location args) pls)
                          (format_name (response_format args)) of
                     Inl e \<Rightarrow> (failed e, cs @ cs2)
                   | Inr t \<Rightarrow> (t, cs @ cs2))))"

definition executeBlockSession_api :: "env \<Rightarrow> BlockSessionInput \<Rightarrow> jstring \<times> call list" where
  "executeBlockSession_api env args =
     (case truthy (KAKAO_ACCESS_TOKEN env) of
        None \<Rightarrow> (P0_LOGIN_REQUIRED, [])
      | Some accessToken \<Rightarrow>
          (case block_session_body env accessToken args of
             (Inl e, cs) \<Rightarrow> (P0_EVENT_FAILED @ error_message env P0_UNKNOWN_ERROR e, cs)
           | (Inr t, cs) \<Rightarrow> (t, cs)))"

definition executeSendCommitment_api :: "env \<Rightarrow> SendCommitmentInput \<Rightarrow> jstring \<times> call list" where
  "executeSendCommitment_api env args =
     (case truthy (KAKAO_ACCESS_TOKEN env) of
        None \<Rightarrow> (P0_LOGIN_REQUIRED, [])
      | Some accessToken \<Rightarrow>
          (case send_commitment_body env accessToken args of
             (Inl e, cs) \<Rightarrow> (P0_MESSAGE_FAILED @ error_message env P0_UNKNOWN_ERROR e, cs)
           | (Inr t, cs) \<Rightarrow> (t, cs)))"

definition SEARCH_SPOT :: jstring where
  "SEARCH_SPOT = ascii ''godsaeng_search_spot''"

definition BLOCK_SESSION :: jstring where
  "BLOCK_SESSION = ascii ''godsaeng_block_session''"

definition SEND_COMMITMENT :: jstring where
  "SEND_COMMITMENT = ascii ''godsaeng_send_commitment''"

definition executeTool :: "env \<Rightarrow> jstring \<Rightarrow> jvalue \<Rightarrow> jstring \<times> call list" where
  "executeTool env nm args =
     (if nm = SEARCH_SPOT then
        (case SearchSpotInputSchema args of
           Inl is \<Rightarrow> (P0_INPUT_ERROR @ zod_message env is, [])
         | Inr d \<Rightarrow> executeSearchSpot_api env d)
      else if nm = BLOCK_SESSION then
        (case BlockSessionInputSchema args of
           Inl is \<Rightarrow> (P0_INPUT_ERROR @ zod_message env is, [])
         | Inr d \<Rightarrow> executeBlockSession_api env d)
      else if nm = SEND_COMMITMENT then
        (case SendCommitmentInputSchema (is_url env) args of
           Inl is \<Rightarrow> (P0_INPUT_ERROR @ zod_message env is, [])
         | Inr d \<Rightarrow> executeSendCommitment_api env d)
      else (P0_UNKNOWN_TOOL @ nm, []))"

text \<open>
  The \<open>tools/call\<close> case of the handler. The reply is a JSON-RPC error (HTTP status,
  code, message) or a result holding the content. The name and the arguments are what
  the request carries, of any JSON type.
\<close>

datatype rpc_reply = JsonRpcError nat int jstring | JsonRpcResult CallToolResult

definition TOOLS :: "jstring list" where
  "TOOLS = [SEARCH_SPOT, BLOCK_SESSION, SEND_COMMITMENT]"

text \<open>The falsy values of JavaScript among the JSON values.\<close>

definition js_falsy :: "jvalue \<Rightarrow> bool" where
  "js_falsy v =
     (case v of
        JNull \<Rightarrow> True
      | JBool b \<Rightarrow> \<not> b
      | JNum r \<Rightarrow> r = 0
      | JStr s \<Rightarrow> s = []
      | _ \<Rightarrow> False)"

text \<open>\<open>params?.arguments || {}\<close>: a falsy value is replaced by the empty object.\<close>

definition arguments_or_empty :: "jvalue option \<Rightarrow> jvalue" where
  "arguments_or_empty a =
     (case a of None \<Rightarrow> JObj [] | Some v \<Rightarrow> if js_falsy v then JObj [] else v)"

text \<open>The tool name in a template literal.\<close>

definition name_text :: "env \<Rightarrow> jvalue \<Rightarrow> jstring" where
  "name_text env v = (case v of JStr s \<Rightarrow> s | _ \<Rightarrow> to_String env v)"

text \<open>\<open>TOOLS.find((t) => t.name === toolName)\<close>: only a string equals a name.\<close>

definition known_tool :: "jvalue \<Rightarrow> jstring option" where
  "known_tool v = (case v of JStr s \<Rightarrow> if s \<in> set TOOLS then Some s else None | _ \<Rightarrow> None)"

text \<open>The two replies that come before a tool runs, or the name of the tool to run.\<close>

definition resolve_tool :: "env \<Rightarrow> jvalue option \<Rightarrow> rpc_reply + jstring" where
  "resolve_tool env toolName =
     (case toolName of
        None \<Rightarrow> Inl (JsonRpcError 400 (- 32602) (ascii ''Missing tool name''))
      | Some v \<Rightarrow>
          if js_falsy v then Inl (JsonRpcError 400 (- 32602) (ascii ''Missing tool name''))
          else
            (case known_tool v of
               None \<Rightarrow>
                 Inl (JsonRpcError 400 (- 32602) (ascii ''Unknown tool: '' @ name_text env v))
             | Some nm \<Rightarrow> Inr nm))"

definition tools_call :: "env \<Rightarrow> jvalue option \<Rightarrow> jvalue option \<Rightarrow> rpc_reply \<times> call list" where
  "tools_call env toolName arguments =
     (case resolve_tool env toolName of
        Inl reply \<Rightarrow> (reply, [])
      | Inr nm \<Rightarrow>
          (case executeTool env nm (arguments_or_empty arguments) of
             (t, cs) \<Rightarrow>
               (JsonRpcResult
                  \<lparr> CallToolResult.content = [TextContent t], isError = None \<rparr>, cs)))"

section \<open>The self-contained handler (all logic inline, no schemas)\<close>

text \<open>
  This handler casts the raw arguments to the types of its runners and validates
  nothing; the model takes the fields at those types, an absent field as \<open>None\<close>. It
  talks to the provider with \<open>fetch\<close>, which resolves on every status.
\<close>

definition CHARACTER_LIMIT :: nat where
  "CHARACTER_LIMIT = 25000"

definition TRUNCATION_NOTICE :: jstring where
  "TRUNCATION_NOTICE = [0x000A, 0x000A] @ ascii ''... ('' @ [0xC751, 0xB2F5, 0xC774] @
     ascii '' '' @ [0xC798, 0xB838, 0xC2B5, 0xB2C8, 0xB2E4] @ ascii '')''"
definition truncateResponse :: "jstring \<Rightarrow> jstring" where
  "truncateResponse c =
     (if length c \<le> CHARACTER_LIMIT then c
      else take (CHARACTER_LIMIT - 100) c @ TRUNCATION_NOTICE)"

text \<open>\<open>getErrorMessage\<close>: the message of an \<open>Error\<close>, else \<open>String(error)\<close>.\<close>

definition getErrorMessage :: "env \<Rightarrow> exn \<Rightarrow> jstring" where
  "getErrorMessage env e = (case e of NotAnError s \<Rightarrow> s | _ \<Rightarrow> error_message env [] e)"

definition response_ok :: "nat \<Rightarrow> bool" where
  "response_ok st = (200 \<le> st \<and> st \<le> 299)"

definition P1_ERR_KEY :: jstring where
  "P1_ERR_KEY = ascii ''KAKAO_REST_API_KEY'' @ [0xAC00] @ ascii '' '' @
     [0xC124, 0xC815, 0xB418, 0xC9C0] @ ascii '' '' @
     [0xC54A, 0xC558, 0xC2B5, 0xB2C8, 0xB2E4] @ ascii ''.''"
definition P1_ERR_AUTH :: jstring where
  "P1_ERR_AUTH = ascii ''Kakao API '' @ [0xC778, 0xC99D] @ ascii '' '' @ [0xC2E4, 0xD328]"
definition P1_SEARCH_FAILED :: jstring where
  "P1_SEARCH_FAILED = [0x274C] @ ascii '' '' @ [0xC7A5, 0xC18C] @ ascii '' '' @
     [0xAC80, 0xC0C9] @ ascii '' '' @ [0xC2E4, 0xD328] @ ascii '': ''"
definition P1_LOGIN_REQUIRED :: jstring where
  "P1_LOGIN_REQUIRED = [0x274C] @ ascii '' '' @ [0xCE74, 0xCE74, 0xC624] @ ascii '' '' @
     [0xB85C, 0xADF8, 0xC778, 0xC774] @ ascii '' '' @
     [0xD544, 0xC694, 0xD569, 0xB2C8, 0xB2E4] @ ascii ''. PlayMCP'' @ [0xC5D0, 0xC11C] @
     ascii '' '' @ [0xCE74, 0xCE74, 0xC624] @ ascii '' '' @
     [0xACC4, 0xC815, 0xC73C, 0xB85C] @ ascii '' '' @
     [0xB85C, 0xADF8, 0xC778, 0xD574, 0xC8FC, 0xC138, 0xC694] @ ascii ''.''"
definition P1_EVENT_FAILED :: jstring where
  "P1_EVENT_FAILED = [0x274C] @ ascii '' '' @ [0xC77C, 0xC815] @ ascii '' '' @
     [0xB4F1, 0xB85D] @ ascii '' '' @ [0xC2E4, 0xD328] @ ascii '': ''"
definition P1_ERR_EXPIRED :: jstring where
  "P1_ERR_EXPIRED = [0xCE74, 0xCE74, 0xC624] @ ascii '' '' @ [0xC778, 0xC99D, 0xC774] @
     ascii '' '' @ [0xB9CC, 0xB8CC, 0xB418, 0xC5C8, 0xC2B5, 0xB2C8, 0xB2E4] @ ascii ''.''"
definition P1_ERR_CAL_SCOPE :: jstring where
  "P1_ERR_CAL_SCOPE = [0xD1A1, 0xCE98, 0xB9B0, 0xB354] @ ascii '' '' @
     [0xAD8C, 0xD55C, 0xC774] @ ascii '' '' @ [0xD544, 0xC694, 0xD569, 0xB2C8, 0xB2E4] @
     ascii ''.''"
definition P1_MESSAGE_FAILED :: jstring where
  "P1_MESSAGE_FAILED = [0x274C] @ ascii '' '' @ [0xBA54, 0xC2DC, 0xC9C0] @ ascii '' '' @
     [0xC804, 0xC1A1] @ ascii '' '' @ [0xC2E4, 0xD328] @ ascii '': ''"
definition P1_ERR_MSG_SCOPE :: jstring where
  "P1_ERR_MSG_SCOPE = [0xBA54, 0xC2DC, 0xC9C0] @ ascii '' '' @ [0xC804, 0xC1A1] @
     ascii '' '' @ [0xAD8C, 0xD55C, 0xC774] @ ascii '' '' @
     [0xD544, 0xC694, 0xD569, 0xB2C8, 0xB2E4] @ ascii ''.''"
text \<open>The message of the URIError that \<open>encodeURIComponent\<close> raises.\<close>

definition URI_MALFORMED :: jstring where
  "URI_MALFORMED = ascii ''URI malformed''"

text \<open>
  \<open>getCoordinates\<close> of this handler. Both URLs are built from
  \<open>encodeURIComponent(location)\<close> inside the \<open>try\<close>: a location that is not well
  formed gives \<open>null\<close> before any request.
\<close>

definition getCoordinates_inline ::
  "env \<Rightarrow> jstring \<Rightarrow> (jstring \<times> jstring) option \<times> call list" where
  "getCoordinates_inline env loc =
     (let key = kakaoRestApiKey env;
          c1 = GET_address_search key loc;
          c2 = GET_keyword_search key (lookup_params loc)
      in if key = [] then (None, [])
         else if \<not> well_formed loc then (None, [])
         else
           (case fetch_address env key loc of
              Inl e \<Rightarrow> (None, [c1])
            | Inr (Fetched st docs) \<Rightarrow>
                (case docs of
                   Inl e \<Rightarrow> (None, [c1])
                 | Inr (doc # ds) \<Rightarrow> (Some (x_doc doc, y_doc doc), [c1])
                 | Inr [] \<Rightarrow>
                     (case fetch_keyword env key (lookup_params loc) of
                        Inl e \<Rightarrow> (None, [c1, c2])
                      | Inr (Fetched st2 docs2) \<Rightarrow>
                          (case docs2 of
                             Inl e \<Rightarrow> (None, [c1, c2])
                           | Inr (place # ps) \<Rightarrow>
                               (Some (x_place place, y_place place), [c1, c2])
                           | Inr [] \<Rightarrow> (None, [c1, c2]))))))"

text \<open>
  \<open>searchPlaces\<close> of this handler. \<open>encodeURIComponent(fullQuery)\<close> raises when the
  query is not well formed, after the coordinate lookup and before the search request. A
  body without \<open>documents\<close> makes the caller's \<open>places.length\<close> raise inside the same
  \<open>try\<close>; the model raises it here.
\<close>

definition searchPlaces_inline ::
  "env \<Rightarrow> Purpose \<Rightarrow> jstring \<Rightarrow> jstring option \<Rightarrow> int \<Rightarrow> int \<Rightarrow>
   (exn + KakaoPlace list) \<times> call list" where
  "searchPlaces_inline env p loc kw r n =
     (if kakaoRestApiKey env = [] then (Inl (Error P1_ERR_KEY), [])
      else
        (case getCoordinates_inline env loc of
           (None, cs) \<Rightarrow> (Inl (Error (ERR_LOCATION_NOT_FOUND @ loc)), cs)
         | (Some coords, cs) \<Rightarrow>
             (let ps = search_params p loc kw r n coords;
                  c = GET_keyword_search (kakaoRestApiKey env) ps
              in if \<not> well_formed (query_param ps) then (Inl (Error URI_MALFORMED), cs)
                 else case fetch_keyword env (kakaoRestApiKey env) ps of
                   Inl e \<Rightarrow> (Inl e, cs @ [c])
                 | Inr (Fetched st docs) \<Rightarrow>
                     if \<not> response_ok st then
                       (if st = 401 then (Inl (Error P1_ERR_AUTH), cs @ [c])
                        else (Inl (Error (ERR_SEARCH_FAILED @ digits st)), cs @ [c]))
                     else (docs, cs @ [c]))))"

text \<open>The JSON rendering and the markdown rendering of this handler's search runner.\<close>

definition json_of_place_inline :: "KakaoPlace \<Rightarrow> jvalue" where
  "json_of_place_inline pl =
     JObj ([(ascii ''name'', JStr (place_name pl)),
            (ascii ''address'',
               JStr (if road_address_name pl = [] then KakaoPlace.address_name pl
                     else road_address_name pl))] @
           opt_key (ascii ''distance'') (KakaoPlace.distance pl) @
           [(ascii ''phone'', JStr (KakaoPlace.phone pl)),
            (ascii ''url'', JStr (place_url pl)),
            (ascii ''category'', JStr (category_name pl))])"

definition json_of_search_inline :: "Purpose \<Rightarrow> jstring \<Rightarrow> KakaoPlace list \<Rightarrow> jvalue" where
  "json_of_search_inline p loc pls =
     JObj [(ascii ''purpose'', JStr (purpose_name p)),
           (ascii ''location'', JStr loc),
           (ascii ''count'', JNum (of_nat (length pls))),
           (ascii ''places'', JArr (map json_of_place_inline pls))]"

definition place_md_inline :: "nat \<times> KakaoPlace \<Rightarrow> jstring" where
  "place_md_inline ip =
     (case ip of (i, pl) \<Rightarrow>
        ascii ''## '' @ digits i @ ascii ''. '' @ place_name pl @ [0x000A, 0x000A] @
        MD_CATEGORY @ category_name pl @ [0x000A] @
        MD_ADDRESS @ (if road_address_name pl = [] then KakaoPlace.address_name pl
                      else road_address_name pl) @ [0x000A] @
        MD_DISTANCE @ (case KakaoPlace.distance pl of
                         None \<Rightarrow> ascii ''undefined'' | Some d \<Rightarrow> d) @ ascii ''m'' @ [0x000A] @
        (if KakaoPlace.phone pl = [] then []
         else MD_PHONE @ KakaoPlace.phone pl @ [0x000A]) @
        MD_MAP @ place_url pl @ ascii '')'' @ [0x000A, 0x000A])"

definition md_header_inline :: "Purpose \<Rightarrow> jstring \<Rightarrow> nat \<Rightarrow> jstring" where
  "md_header_inline p loc n =
     ascii ''# '' @ PURPOSE_LABELS p @ MD_TITLE_SUFFIX @ [0x000A, 0x000A] @
     MD_LOCATION @ loc @ [0x000A] @
     MD_COUNT @ digits n @ MD_COUNT_UNIT @ [0x000A, 0x000A]"

text \<open>The markdown of a result before \<open>truncateResponse\<close>: its natural length.\<close>

definition md_places_inline :: "Purpose \<Rightarrow> jstring \<Rightarrow> KakaoPlace list \<Rightarrow> jstring" where
  "md_places_inline p loc pls =
     md_header_inline p loc (length pls) @ concat (map place_md_inline (enumerate 1 pls))"

definition executeSearchSpot_inline ::
  "env \<Rightarrow> Purpose \<Rightarrow> jstring \<Rightarrow> jstring option \<Rightarrow> int option \<Rightarrow> int option \<Rightarrow>
   jstring option \<Rightarrow> jstring \<times> call list" where
  "executeSearchSpot_inline env p loc kw r n fmt =
     (case searchPlaces_inline env p loc kw (or_default r 500) (or_default n 5) of
        (Inl e, cs) \<Rightarrow> (P1_SEARCH_FAILED @ getErrorMessage env e, cs)
      | (Inr pls, cs) \<Rightarrow>
          if or_else fmt (ascii ''markdown'') = ascii ''json''
          then (JSON_stringify env (json_of_search_inline p loc pls), cs)
          else if pls = []
          then (md_header_inline p loc 0 @ MD_NO_RESULTS @ [0x000A], cs)
          else (truncateResponse (md_places_inline p loc pls), cs))"

text \<open>The calendar runner of this handler: the credential test comes first.\<close>

text \<open>
  The reminder of this runner: \<open>Math.round((args.reminder_minutes || 15) / 5) * 5\<close>, and
  its rendering. Below \<open>2 ^ 50\<close> in magnitude the double quotient rounds as the exact one.
\<close>

definition reminder_inline :: "env \<Rightarrow> int option \<Rightarrow> int" where
  "reminder_inline env rem =
     (let m = or_default rem 15
      in if \<bar>m\<bar> < 2 ^ 50 then Math_round (of_int m / 5) * 5 else fst (big_reminder env m))"

definition reminder_text_inline :: "env \<Rightarrow> int option \<Rightarrow> jstring" where
  "reminder_text_inline env rem =
     (let m = or_default rem 15
      in if \<bar>m\<bar> < 2 ^ 50 then show_int (Math_round (of_int m / 5) * 5)
         else snd (big_reminder env m))"

definition build_event_inline ::
  "env \<Rightarrow> jstring \<Rightarrow> jstring \<Rightarrow> jstring \<Rightarrow> jstring option \<Rightarrow> jstring option \<Rightarrow>
   int option \<Rightarrow> CalendarColor option \<Rightarrow> CalendarEvent" where
  "build_event_inline env ttl startIso endIso locName locAddr rem col =
     \<lparr> CalendarEvent.title = ttl,
       CalendarEvent.time =
         \<lparr> start_at = startIso, end_at = endIso,
           time_zone = ascii ''Asia/Seoul'', all_day = False \<rparr>,
       CalendarEvent.description = Some (EVENT_DESCRIPTION @ ttl),
       CalendarEvent.location =
         (case truthy locName of
            None \<Rightarrow> None
          | Some nm \<Rightarrow>
              Some \<lparr> CalendarEventLocation.name = nm,
                     CalendarEventLocation.address = truthy locAddr \<rparr>),
       CalendarEvent.reminders =
         (if 0 < reminder_inline env rem then Some [reminder_inline env rem] else None),
       CalendarEvent.color = (case col of None \<Rightarrow> BLUE | Some c \<Rightarrow> c) \<rparr>"

definition executeBlockSession_inline ::
  "env \<Rightarrow> jstring \<Rightarrow> jstring \<Rightarrow> int \<Rightarrow> jstring option \<Rightarrow> jstring option \<Rightarrow>
   int option \<Rightarrow> CalendarColor option \<Rightarrow> jstring \<times> call list" where
  "executeBlockSession_inline env ttl start dur locName locAddr rem col =
     (case truthy (KAKAO_ACCESS_TOKEN env) of
        None \<Rightarrow> (P1_LOGIN_REQUIRED, [])
      | Some accessToken \<Rightarrow>
          (case iso_after env start 0 of
             Inl e \<Rightarrow> (P1_EVENT_FAILED @ getErrorMessage env e, [])
           | Inr startIso \<Rightarrow>
               (case iso_after env start dur of
                  Inl e \<Rightarrow> (P1_EVENT_FAILED @ getErrorMessage env e, [])
                | Inr endIso \<Rightarrow>
                    (let event = build_event_inline env ttl startIso endIso locName locAddr
                                   rem col;
                         c = POST_create_event accessToken event
                     in case fetch_create_event env accessToken event of
                          Inl e \<Rightarrow> (P1_EVENT_FAILED @ getErrorMessage env e, [c])
                        | Inr st \<Rightarrow>
                            if \<not> response_ok st then
                              (P1_EVENT_FAILED @
                                 (if st = 401 then P1_ERR_EXPIRED
                                  else if st = 403 then P1_ERR_CAL_SCOPE
                                  else ERR_EVENT_FAILED @ digits st), [c])
                            else
                              (MD_EVENT_DONE @ [0x000A, 0x000A] @
                               MD_EVENT_TITLE @ ttl @ [0x000A] @
                               MD_EVENT_START @ formatTime_after env start 0 @ [0x000A] @
                               MD_EVENT_END @ formatTime_after env start dur @ [0x000A] @
                               (case truthy locName of
                                  None \<Rightarrow> []
                                | Some nm \<Rightarrow> MD_EVENT_PLACE @ nm @ [0x000A]) @
                               MD_EVENT_REMINDER @ reminder_text_inline env rem @ MD_MINUTES_BEFORE @
                               [0x000A, 0x000A] @
                               EVENT_REGISTERED @ [0x000A], [c])))))"

text \<open>
  The message runner of this handler. Its inline templates are the objects that
  \<open>createFeedTemplate\<close> and \<open>createTextTemplate\<close> build; every \<open>template_type\<close> other
  than \<open>"feed"\<close> gives the text template.
\<close>

definition build_template_inline ::
  "env \<Rightarrow> jstring \<Rightarrow> jstring option \<Rightarrow> jstring option \<Rightarrow> jstring option \<Rightarrow>
   jstring option \<Rightarrow> MessageTemplate" where
  "build_template_inline env g locName locUrl enc tt =
     (let e = or_else enc (getRandomEncouragement env)
      in if or_else tt (ascii ''feed'') = ascii ''feed''
         then Feed (createFeedTemplate g e locName locUrl)
         else Text (createTextTemplate g e locUrl))"

definition executeSendCommitment_inline ::
  "env \<Rightarrow> jstring \<Rightarrow> jstring option \<Rightarrow> jstring option \<Rightarrow> jstring option \<Rightarrow>
   jstring option \<Rightarrow> jstring \<times> call list" where
  "executeSendCommitment_inline env g locName locUrl enc tt =
     (case truthy (KAKAO_ACCESS_TOKEN env) of
        None \<Rightarrow> (P1_LOGIN_REQUIRED, [])
      | Some accessToken \<Rightarrow>
          (let template = build_template_inline env g locName locUrl enc tt;
               c = POST_send_to_me accessToken template
           in case fetch_send_to_me env accessToken template of
                Inl e \<Rightarrow> (P1_MESSAGE_FAILED @ getErrorMessage env e, [c])
              | Inr st \<Rightarrow>
                  if \<not> response_ok st then
                    (P1_MESSAGE_FAILED @
                       (if st = 401 then P1_ERR_EXPIRED
                        else if st = 403 then P1_ERR_MSG_SCOPE
                        else ERR_MESSAGE_FAILED @ digits st), [c])
                  else
                    (MD_CARD_DONE @ [0x000A, 0x000A] @
                     MD_CARD_GOAL @ g @ [0x000A] @
                     (case truthy locName of
                        None \<Rightarrow> []
                      | Some nm \<Rightarrow> MD_EVENT_PLACE @ nm @ [0x000A]) @
                     MD_CARD_CHEER @ or_else enc (getRandomEncouragement env) @
                     [0x000A, 0x000A] @
                     MD_CARD_CHECK @ [0x000A], [c])))"

text \<open>
  The dispatcher of this handler casts the arguments to the type of the runner it
  picks: \<open>inline_args\<close> holds the arguments as each of the three casts reads them.
\<close>

datatype search_args =
  SearchArgs Purpose jstring "jstring option" "int option" "int option" "jstring option"

datatype block_args =
  BlockArgs jstring jstring int "jstring option" "jstring option" "int option"
    "CalendarColor option"

datatype commitment_args =
  CommitmentArgs jstring "jstring option" "jstring option" "jstring option" "jstring option"

record inline_args =
  as_search :: search_args
  as_block :: block_args
  as_commitment :: commitment_args

definition executeTool_inline :: "env \<Rightarrow> jstring \<Rightarrow> inline_args \<Rightarrow> jstring \<times> call list" where
  "executeTool_inline env nm args =
     (if nm = SEARCH_SPOT then
        (case as_search args of
           SearchArgs p loc kw r n fmt \<Rightarrow> executeSearchSpot_inline env p loc kw r n fmt)
      else if nm = BLOCK_SESSION then
        (case as_block args of
           BlockArgs ttl start dur locName locAddr rem col \<Rightarrow>
             executeBlockSession_inline env ttl start dur locName locAddr rem col)
      else if nm = SEND_COMMITMENT then
        (case as_commitment args of
           CommitmentArgs g locName locUrl enc tt \<Rightarrow>
             executeSendCommitment_inline env g locName locUrl enc tt)
      else (P0_UNKNOWN_TOOL @ nm, []))"

definition tools_call_inline ::
  "env \<Rightarrow> jvalue option \<Rightarrow> inline_args \<Rightarrow> rpc_reply \<times> call list" where
  "tools_call_inline env toolName args =
     (case resolve_tool env toolName of
        Inl reply \<Rightarrow> (reply, [])
      | Inr nm \<Rightarrow>
          (case executeTool_inline env nm args of
             (t, cs) \<Rightarrow>
               (JsonRpcResult
                  \<lparr> CallToolResult.content = [TextContent t], isError = None \<rparr>, cs)))"

section \<open>A sample environment\<close>

text \<open>
  The concrete inputs on which the theorems below are run: a provider that knows one
  address and no place, accepts every event, and a runtime whose renderings are fixed
  strings. No credential for the calendar is configured.
\<close>

definition sample_env :: env where
  "sample_env =
     \<lparr> kakaoRestApiKey = ascii ''key'',
       KAKAO_ACCESS_TOKEN = None,
       address_search =
         (\<lambda>k q. Inr [\<lparr> KakaoAddressDocument.address_name = q,
                          x_doc = ascii ''126.92'', y_doc = ascii ''37.55'' \<rparr>]),
       keyword_search = (\<lambda>k ps. Inr []),
       create_event = (\<lambda>t ev. Inr (ascii ''event-1'')),
       send_to_me = (\<lambda>t m. Inr ()),
       fetch_address =
         (\<lambda>k q. Inr (Fetched 200
                         (Inr [\<lparr> KakaoAddressDocument.address_name = q,
                                  x_doc = ascii ''126.92'', y_doc = ascii ''37.55'' \<rparr>]))),
       fetch_keyword = (\<lambda>k ps. Inr (Fetched 200 (Inr []))),
       fetch_create_event = (\<lambda>t ev. Inr 200),
       fetch_send_to_me = (\<lambda>t m. Inr 200),
       zod_message = (\<lambda>is. ascii ''invalid input''),
       is_url = (\<lambda>s. take 8 s = ascii ''https://''),
       JSON_stringify = (\<lambda>v. ascii ''{}''),
       to_String = (\<lambda>v. ascii ''[object Object]''),
       random_index = 0,
       iso_after = (\<lambda>s m. Inr s),
       iso_millis_after = (\<lambda>s m. Inr s),
       formatDateTime = (\<lambda>s. s),
       formatTime_after = (\<lambda>s m. s),
       big_reminder = (\<lambda>m. (m, ascii ''0'')),
       helpers =
         \<lparr> coordinateLookup = (\<lambda>l. (Inl (Error (ascii ''not implemented'')), [])),
           searchPlaces_helper = (\<lambda>q lon lat r n c. (Inr [], [])),
           PURPOSE_KEYWORDS = (\<lambda>p. None),
           PURPOSE_CATEGORY_MAP = (\<lambda>p. None),
           formatSearchSpotResult_helper = (\<lambda>v f. Inr []) \<rparr> \<rparr>"

text \<open>A place whose name alone is longer than the character limit, and a provider that
  answers every keyword search with it.\<close>

definition long_place :: KakaoPlace where
  "long_place =
     \<lparr> place_name = replicate 30000 0x61, category_name = ascii ''cafe'',
       KakaoPlace.phone = [], KakaoPlace.address_name = ascii ''1 Main Street'',
       road_address_name = [], x_place = ascii ''126.92'', y_place = ascii ''37.55'',
       place_url = ascii ''http://place.map.kakao.com/1'',
       KakaoPlace.distance = Some (ascii ''120'') \<rparr>"

definition busy_env :: env where
  "busy_env =
     sample_env \<lparr> fetch_keyword := (\<lambda>k ps. Inr (Fetched 200 (Inr [long_place]))),
                  keyword_search := (\<lambda>k ps. Inr [long_place]) \<rparr>"

text \<open>Calendar options that carry nothing but a reminder.\<close>

definition sample_options :: "int \<Rightarrow> CalendarOptions" where
  "sample_options m =
     \<lparr> CalendarOptions.locationName = None, locationAddress = None,
       reminderMinutes = Some m, CalendarOptions.color = Some BLUE,
       CalendarOptions.description = None \<rparr>"

text \<open>The same environment with a credential for the calendar and the messages.\<close>

definition token_env :: env where
  "token_env = sample_env \<lparr> KAKAO_ACCESS_TOKEN := Some (ascii ''token'') \<rparr>"

text \<open>Arguments of the self-contained handler: nothing, and one runner's arguments
  filled in.\<close>

definition no_args :: inline_args where
  "no_args =
     \<lparr> as_search = SearchArgs study [] None None None None,
       as_block = BlockArgs [] [] 0 None None None None,
       as_commitment = CommitmentArgs [] None None None None \<rparr>"

definition hongdae_markdown :: inline_args where
  "hongdae_markdown =
     no_args \<lparr> as_search :=
                 SearchArgs study (ascii ''Hongdae'') None None None (Some (ascii ''markdown'')) \<rparr>"

definition hongdae_json :: inline_args where
  "hongdae_json =
     no_args \<lparr> as_search :=
                 SearchArgs study (ascii ''Hongdae'') None None None (Some (ascii ''json'')) \<rparr>"

text \<open>A calendar request with a reminder of 0 minutes: for the self-contained handler,
  and for the registered tool with the record its schema makes of it.\<close>

definition zero_reminder_call :: inline_args where
  "zero_reminder_call =
     no_args \<lparr> as_block :=
                 BlockArgs (ascii ''study'') (ascii ''2026-01-15T19:00:00'') 120 None None
                   (Some 0) None \<rparr>"

definition zero_reminder_args :: jvalue where
  "zero_reminder_args =
     JObj [(ascii ''title'', JStr (ascii ''study'')),
           (ascii ''start_time'', JStr (ascii ''2026-01-15T19:00:00'')),
           (ascii ''duration_minutes'', JNum 120),
           (ascii ''reminder_minutes'', JNum 0)]"

definition zero_reminder_input :: BlockSessionInput where
  "zero_reminder_input =
     \<lparr> BlockSessionInput.title = ascii ''study'', BlockSessionInput.location_name = None,
       location_address = None, start_time = ascii ''2026-01-15T19:00:00'',
       duration_minutes = 120, reminder_minutes = 0, BlockSessionInput.color = BLUE \<rparr>"

text \<open>A message request for the text template whose goal and encouragement together
  are longer than 200 code units.\<close>

definition long_text_args :: jvalue where
  "long_text_args =
     JObj [(ascii ''goal'', JStr (replicate 150 0x61)),
           (ascii ''encouragement'', JStr (replicate 100 0x62)),
           (ascii ''template_type'', JStr (ascii ''text''))]"

definition long_text_input :: SendCommitmentInput where
  "long_text_input =
     \<lparr> SendCommitmentInput.goal = replicate 150 0x61,
       SendCommitmentInput.location_name = None, location_url = None,
       SendCommitmentInput.encouragement = Some (replicate 100 0x62),
       template_type = TextType \<rparr>"

definition long_text_call :: inline_args where
  "long_text_call =
     no_args \<lparr> as_commitment :=
                 CommitmentArgs (replicate 150 0x61) None None (Some (replicate 100 0x62))
                   (Some (ascii ''text'')) \<rparr>"

text \<open>A provider that answers the address lookup with 401, and one that answers it but
  answers every keyword search with 401.\<close>

definition search_unauthorized_env :: env where
  "search_unauthorized_env =
     sample_env
       \<lparr> keyword_search :=
           (\<lambda>k ps. Inl (AxiosError (Some 401) (ascii ''Request failed with status code 401'')
                           None)),
         fetch_keyword := (\<lambda>k ps. Inr (Fetched 401 (Inl (Error (ascii ''no documents''))))) \<rparr>"

definition unauthorized_env :: env where
  "unauthorized_env =
     sample_env
       \<lparr> address_search :=
           (\<lambda>k q. Inl (AxiosError (Some 401) (ascii ''Request failed with status code 401'')
                          None)),
         fetch_address := (\<lambda>k q. Inr (Fetched 401 (Inl (Error (ascii ''no documents''))))) \<rparr>"

section \<open>Argument maps\<close>

text \<open>
  The argument maps that the search schema is meant to accept, stated on the map itself:
  a purpose among the four, a location of 1 to 100 code units, an optional keyword of at
  most 100, an optional whole radius in 100..20000 and limit in 1..15, an optional
  response format among the two, and no other key. Below it, one such map.
\<close>

definition valid_search_args :: "(jstring \<times> jvalue) list \<Rightarrow> bool" where
  "valid_search_args kvs =
     ((case map_of kvs (ascii ''purpose'') of
         Some (JStr s) \<Rightarrow>
           s \<in> {ascii ''study'', ascii ''exercise'', ascii ''reading'', ascii ''work''}
       | _ \<Rightarrow> False) \<and>
      (case map_of kvs (ascii ''location'') of
         Some (JStr s) \<Rightarrow> 1 \<le> length s \<and> length s \<le> 100
       | _ \<Rightarrow> False) \<and>
      (case map_of kvs (ascii ''keyword'') of
         None \<Rightarrow> True
       | Some (JStr s) \<Rightarrow> length s \<le> 100
       | _ \<Rightarrow> False) \<and>
      (case map_of kvs (ascii ''radius'') of
         None \<Rightarrow> True
       | Some (JNum r) \<Rightarrow> r = of_int \<lfloor>r\<rfloor> \<and> 100 \<le> r \<and> r \<le> 20000
       | _ \<Rightarrow> False) \<and>
      (case map_of kvs (ascii ''limit'') of
         None \<Rightarrow> True
       | Some (JNum r) \<Rightarrow> r = of_int \<lfloor>r\<rfloor> \<and> 1 \<le> r \<and> r \<le> 15
       | _ \<Rightarrow> False) \<and>
      (case map_of kvs (ascii ''response_format'') of
         None \<Rightarrow> True
       | Some (JStr s) \<Rightarrow> s \<in> {ascii ''markdown'', ascii ''json''}
       | _ \<Rightarrow> False) \<and>
      list_all (\<lambda>k. k \<in> {ascii ''purpose'', ascii ''keyword'', ascii ''location'',
                           ascii ''radius'', ascii ''limit'', ascii ''response_format''})
        (map fst kvs))"

definition hongdae_args :: "(jstring \<times> jvalue) list" where
  "hongdae_args =
     [(ascii ''purpose'', JStr (ascii ''study'')),
      (ascii ''location'', JStr (ascii ''Hongdae Station'')),
      (ascii ''radius'', JNum 1000)]"

section \<open>Theorems\<close>

subsection \<open>The dispatchers\<close>

lemma tool_names_distinct:
  "SEARCH_SPOT \<noteq> BLOCK_SESSION" "SEARCH_SPOT \<noteq> SEND_COMMITMENT"
  "BLOCK_SESSION \<noteq> SEND_COMMITMENT" "BLOCK_SESSION \<noteq> SEARCH_SPOT"
  "SEND_COMMITMENT \<noteq> SEARCH_SPOT" "SEND_COMMITMENT \<noteq> BLOCK_SESSION"
  by (simp_all add: SEARCH_SPOT_def BLOCK_SESSION_def SEND_COMMITMENT_def ascii_def)

lemma resolve_tool_known:
  "resolve_tool env (Some (JStr SEARCH_SPOT)) = Inr SEARCH_SPOT"
  "resolve_tool env (Some (JStr BLOCK_SESSION)) = Inr BLOCK_SESSION"
  "resolve_tool env (Some (JStr SEND_COMMITMENT)) = Inr SEND_COMMITMENT"
  by (simp_all add: resolve_tool_def js_falsy_def known_tool_def TOOLS_def SEARCH_SPOT_def
      BLOCK_SESSION_def SEND_COMMITMENT_def ascii_def)

lemma truthy_Some: "truthy v = Some t \<Longrightarrow> t \<noteq> []"
  by (auto simp: truthy_def split: option.splits if_splits)

lemma tools_call_inline_search:
  "as_search args = SearchArgs p loc kw r n fmt \<Longrightarrow>
   tools_call_inline env (Some (JStr SEARCH_SPOT)) args =
     (JsonRpcResult \<lparr> CallToolResult.content =
                          [TextContent (fst (executeSearchSpot_inline env p loc kw r n fmt))],
                      isError = None \<rparr>,
      snd (executeSearchSpot_inline env p loc kw r n fmt))"
  by (simp add: tools_call_inline_def resolve_tool_known executeTool_inline_def split: prod.splits)

subsection \<open>The schema combinators\<close>

text \<open>What a successful parse of a field says about the value, and when a field parses.\<close>

lemma and_field_Inr:
  "and_field a b = Inr v \<Longrightarrow> \<exists>f x. a = Inr f \<and> b = Inr x \<and> v = f x"
  by (cases a; cases b) auto

lemma strict_Inr:
  "strict shape kvs r = Inr v \<Longrightarrow> r = Inr v \<and> fst ` set kvs \<subseteq> set shape"
  by (auto simp: strict_def Let_def filter_empty_conv split: if_splits sum.splits)

lemma at_key_Inr: "at_key kvs k f = Inr x \<Longrightarrow> f (map_of kvs k) = Inr x"
  by (auto simp: at_key_def split: sum.splits)

lemma z_int_Inr:
  "z_int lo hi v = Inr i \<Longrightarrow> v = Some (JNum (of_int i)) \<and> lo \<le> i \<and> i \<le> hi"
  by (auto simp: z_int_def Let_def split: option.splits jvalue.splits if_splits)

lemma z_string_Inr:
  "z_string lo hi v = Inr s \<Longrightarrow> v = Some (JStr s) \<and> lo \<le> length s \<and> length s \<le> hi"
  by (auto simp: z_string_def Let_def split: option.splits jvalue.splits if_splits)

lemma z_enum_Inr:
  "z_enum tbl v = Inr a \<Longrightarrow> \<exists>s. v = Some (JStr s) \<and> map_of tbl s = Some a"
  by (auto simp: z_enum_def split: option.splits jvalue.splits)

lemma z_optional_Inr:
  "z_optional f v = Inr x \<Longrightarrow>
     (v = None \<and> x = None) \<or> (\<exists>j a. v = Some j \<and> f (Some j) = Inr a \<and> x = Some a)"
  by (auto simp: z_optional_def split: option.splits sum.splits)

lemma z_default_Inr:
  "z_default d f v = Inr x \<Longrightarrow> f (Some (case v of None \<Rightarrow> d | Some j \<Rightarrow> j)) = Inr x"
  by (simp add: z_default_def)

lemma strict_ok:
  "list_all (\<lambda>k. k \<in> set shape) (map fst kvs) \<Longrightarrow> strict shape kvs r = r"
  by (auto simp: strict_def Let_def filter_empty_conv list_all_iff)

lemma z_string_ok:
  "lo \<le> length s \<Longrightarrow> length s \<le> hi \<Longrightarrow> z_string lo hi (Some (JStr s)) = Inr s"
  by (simp add: z_string_def)

lemma z_int_ok:
  "r = of_int \<lfloor>r\<rfloor> \<Longrightarrow> of_int lo \<le> r \<Longrightarrow> r \<le> of_int hi \<Longrightarrow>
     z_int lo hi (Some (JNum r)) = Inr \<lfloor>r\<rfloor>"
  by (simp add: z_int_def)

subsection \<open>The sample inputs\<close>

lemma hongdae_parse:
  "SearchSpotInputSchema (JObj hongdae_args) =
     Inr \<lparr> SearchSpotInput.purpose = study, keyword = None,
           SearchSpotInput.location = ascii ''Hongdae Station'', radius = 1000, limit = 5,
           response_format = markdown \<rparr>"
  by (simp add: SearchSpotInputSchema_def hongdae_args_def strict_def SearchSpotInput_keys_def
      at_key_def PurposeSchema_def ResponseFormatSchema_def z_enum_def z_default_def
      z_optional_def z_string_def z_int_def ascii_def Let_def)

lemma well_formed_Hongdae: "well_formed (ascii ''Hongdae'')"
  by (simp add: ascii_def well_formed.simps isHighSurrogate_def isLowSurrogate_def)

subsection \<open>Truncation\<close>

lemma length_TRUNCATION_NOTICE: "length TRUNCATION_NOTICE = 17"
  by (simp add: TRUNCATION_NOTICE_def ascii_def)

lemma truncateResponse_long:
  "25000 < length c \<Longrightarrow> length (truncateResponse c) = 24917"
  by (simp add: truncateResponse_def CHARACTER_LIMIT_def length_TRUNCATION_NOTICE)

lemma busy_search:
  "searchPlaces_inline busy_env study (ascii ''Hongdae'') None (or_default None 500)
     (or_default None 5) =
     (Inr [long_place],
      [GET_address_search (ascii ''key'') (ascii ''Hongdae''),
       GET_keyword_search (ascii ''key'')
         (search_params study (ascii ''Hongdae'') None 500 5
            (ascii ''126.92'', ascii ''37.55''))])"
  by (simp add: searchPlaces_inline_def getCoordinates_inline_def busy_env_def sample_env_def
      or_default_def response_ok_def search_params_def KW_STUDY_def or_else_def
      ascii_def isHighSurrogate_def isLowSurrogate_def)

lemma long_md: "25000 < length (md_places_inline study (ascii ''Hongdae'') [long_place])"
  by (simp add: md_places_inline_def md_header_inline_def place_md_inline_def long_place_def
      enumerate_eq_zip)

text \<open>
  C2, as the code has it: \<open>truncateResponse\<close> returns a render of at most 25,000 code
  units unchanged, and cuts a longer one to its first 24,900 code units (the limit minus
  100) followed by the notice of 17 code units, 24,917 in all. In the self-contained
  handler every markdown render (any \<open>response_format\<close> but \<open>"json"\<close>) of a result with
  at least one place goes through \<open>truncateResponse\<close>; the JSON render is the output of
  \<open>JSON.stringify\<close> as it is, there and in \<open>formatSearchSpotResult\<close>.
\<close>

theorem C2_truncation:
  "truncateResponse c = (if length c \<le> 25000 then c else take 24900 c @ TRUNCATION_NOTICE) \<and>
   length (truncateResponse c) = (if length c \<le> 25000 then length c else 24917) \<and>
   length TRUNCATION_NOTICE = 17 \<and>
   (as_search args = SearchArgs p loc kw r n fmt \<and>
    searchPlaces_inline env p loc kw (or_default r 500) (or_default n 5) = (Inr pls, cs) \<and>
    (or_else fmt (ascii ''markdown'') = ascii ''json'' \<or> pls \<noteq> []) \<longrightarrow>
      fst (tools_call_inline env (Some (JStr SEARCH_SPOT)) args) =
        JsonRpcResult
          \<lparr> CallToolResult.content =
              [TextContent
                 (if or_else fmt (ascii ''markdown'') = ascii ''json''
                  then JSON_stringify env (json_of_search_inline p loc pls)
                  else truncateResponse (md_places_inline p loc pls))],
            isError = None \<rparr>) \<and>
   formatSearchSpotResult env out json = JSON_stringify env (json_of_search out)"
proof (intro conjI impI)
  show "truncateResponse c = (if length c \<le> 25000 then c else take 24900 c @ TRUNCATION_NOTICE)"
    by (simp add: truncateResponse_def CHARACTER_LIMIT_def)
  show "length (truncateResponse c) = (if length c \<le> 25000 then length c else 24917)"
    by (simp add: truncateResponse_def CHARACTER_LIMIT_def length_TRUNCATION_NOTICE)
  show "length TRUNCATION_NOTICE = 17" by (rule length_TRUNCATION_NOTICE)
  show "formatSearchSpotResult env out json = JSON_stringify env (json_of_search out)"
    by (simp add: formatSearchSpotResult_def)
next
  assume h: "as_search args = SearchArgs p loc kw r n fmt \<and>
    searchPlaces_inline env p loc kw (or_default r 500) (or_default n 5) = (Inr pls, cs) \<and>
    (or_else fmt (ascii ''markdown'') = ascii ''json'' \<or> pls \<noteq> [])"
  then show "fst (tools_call_inline env (Some (JStr SEARCH_SPOT)) args) =
        JsonRpcResult
          \<lparr> CallToolResult.content =
              [TextContent
                 (if or_else fmt (ascii ''markdown'') = ascii ''json''
                  then JSON_stringify env (json_of_search_inline p loc pls)
                  else truncateResponse (md_places_inline p loc pls))],
            isError = None \<rparr>"
    by (auto simp add: tools_call_inline_search executeSearchSpot_inline_def)
qed

text \<open>The theorem at a result whose markdown is longer than the limit, in both formats.\<close>

theorem C2_truncation_witness:
  "fst (tools_call_inline busy_env (Some (JStr SEARCH_SPOT)) hongdae_json) =
     JsonRpcResult \<lparr> CallToolResult.content = [TextContent (ascii ''{}'')], isError = None \<rparr> \<and>
   fst (tools_call_inline busy_env (Some (JStr SEARCH_SPOT)) hongdae_markdown) =
     JsonRpcResult
       \<lparr> CallToolResult.content =
           [TextContent
              (truncateResponse (md_places_inline study (ascii ''Hongdae'') [long_place]))],
         isError = None \<rparr> \<and>
   25000 < length (md_places_inline study (ascii ''Hongdae'') [long_place]) \<and>
   length (truncateResponse (md_places_inline study (ascii ''Hongdae'') [long_place])) = 24917"
proof -
  let ?out = "\<lparr> query = [], SearchSpotOutput.purpose = study, SearchSpotOutput.location = [],
                  total = 0, places = [] \<rparr>"
  have j: "as_search hongdae_json =
             SearchArgs study (ascii ''Hongdae'') None None None (Some (ascii ''json''))"
    by (simp add: hongdae_json_def)
  have m: "as_search hongdae_markdown =
             SearchArgs study (ascii ''Hongdae'') None None None (Some (ascii ''markdown''))"
    by (simp add: hongdae_markdown_def)
  have fj: "or_else (Some (ascii ''json'')) (ascii ''markdown'') = ascii ''json''"
    by (simp add: or_else_def ascii_def)
  have fm: "or_else (Some (ascii ''markdown'')) (ascii ''markdown'') \<noteq> ascii ''json''"
    by (simp add: or_else_def ascii_def)
  have s: "JSON_stringify busy_env = (\<lambda>v. ascii ''{}'')"
    by (simp add: busy_env_def sample_env_def)
  note tj = C2_truncation [of "md_places_inline study (ascii ''Hongdae'') [long_place]"
      hongdae_json study "ascii ''Hongdae''" None None None "Some (ascii ''json'')" busy_env
      "[long_place]" _ ?out]
  note tm = C2_truncation [of "md_places_inline study (ascii ''Hongdae'') [long_place]"
      hongdae_markdown study "ascii ''Hongdae''" None None None "Some (ascii ''markdown'')"
      busy_env "[long_place]" _ ?out]
  from tj tm j m fj fm s busy_search long_md show ?thesis by simp
qed

text \<open>
  The claim as stated fails: the markdown render of a search whose natural length is over
  25,000 code units comes back as its first 24,900 code units and the notice, 24,917 long,
  where the claim has the first 25,000 - 17 = 24,983 and a total of 25,000.
\<close>

theorem C2_counterexample:
  "fst (tools_call_inline busy_env (Some (JStr SEARCH_SPOT)) hongdae_markdown) =
     JsonRpcResult
       \<lparr> CallToolResult.content =
           [TextContent
              (take 24900 (md_places_inline study (ascii ''Hongdae'') [long_place]) @
               TRUNCATION_NOTICE)],
         isError = None \<rparr> \<and>
   25000 < length (md_places_inline study (ascii ''Hongdae'') [long_place]) \<and>
   length (take 24900 (md_places_inline study (ascii ''Hongdae'') [long_place]) @
           TRUNCATION_NOTICE) = 24917 \<and>
   25000 - length TRUNCATION_NOTICE = 24983"
proof -
  have m: "as_search hongdae_markdown =
             SearchArgs study (ascii ''Hongdae'') None None None (Some (ascii ''markdown''))"
    by (simp add: hongdae_markdown_def)
  have fm: "or_else (Some (ascii ''markdown'')) (ascii ''markdown'') \<noteq> ascii ''json''"
    by (simp add: or_else_def ascii_def)
  have e: "fst (executeSearchSpot_inline busy_env study (ascii ''Hongdae'') None None None
                  (Some (ascii ''markdown''))) =
           truncateResponse (md_places_inline study (ascii ''Hongdae'') [long_place])"
    using busy_search fm by (simp add: executeSearchSpot_inline_def long_place_def)
  have t: "truncateResponse (md_places_inline study (ascii ''Hongdae'') [long_place]) =
           take 24900 (md_places_inline study (ascii ''Hongdae'') [long_place]) @
             TRUNCATION_NOTICE"
    using long_md by (simp add: truncateResponse_def CHARACTER_LIMIT_def)
  have l: "length (take 24900 (md_places_inline study (ascii ''Hongdae'') [long_place]) @
           TRUNCATION_NOTICE) = 24917"
    using long_md by (simp add: length_TRUNCATION_NOTICE)
  show ?thesis
    using tools_call_inline_search [OF m, of busy_env] e t l long_md
    by (simp add: length_TRUNCATION_NOTICE)
qed


subsection \<open>Reminders\<close>

lemma roundToFiveMinutes_eq: "roundToFiveMinutes m = 5 * ((m + 2) div 5)"
  unfolding roundToFiveMinutes_def Math_round_def
  by (simp add: floor_divide_of_int_eq) linarith

text \<open>
  \<open>createCalendarEvent\<close> does what the claim says: for a reminder \<open>m\<close> in the validated
  range 0 to 1440, \<open>roundToFiveMinutes m\<close> is the multiple of 5 nearest to \<open>m\<close> (7 gives
  5); it is 0 exactly for 0, 1 and 2; and the event posted carries
  \<open>reminders = [roundToFiveMinutes m]\<close>, or no \<open>reminders\<close> field when that value is 0.
\<close>

lemma createCalendarEvent_reminder:
  assumes "0 \<le> m" and "m \<le> 1440"
    and "reminderMinutes options = Some m"
    and "accessToken \<noteq> []"
    and "formatStartTime env start = Inr s" and "calculateEndTime env s dur = Inr e"
  shows "roundToFiveMinutes m mod 5 = 0 \<and> \<bar>roundToFiveMinutes m - m\<bar> \<le> 2 \<and>
         roundToFiveMinutes 7 = 5 \<and>
         (roundToFiveMinutes m = 0 \<longleftrightarrow> m \<in> {0, 1, 2}) \<and>
         snd (createCalendarEvent env accessToken ttl start dur options) =
           [POST_create_event accessToken (build_event ttl s e options)] \<and>
         reminders (build_event ttl s e options) =
           (if roundToFiveMinutes m = 0 then None else Some [roundToFiveMinutes m])"
proof (intro conjI)
  show "roundToFiveMinutes m mod 5 = 0" by (simp add: roundToFiveMinutes_eq)
  show "\<bar>roundToFiveMinutes m - m\<bar> \<le> 2" unfolding roundToFiveMinutes_eq by linarith
  show "roundToFiveMinutes 7 = 5" by (simp add: roundToFiveMinutes_eq)
  show "(roundToFiveMinutes m = 0) = (m \<in> {0, 1, 2})"
    unfolding roundToFiveMinutes_eq using assms(1) by auto
  show "snd (createCalendarEvent env accessToken ttl start dur options) =
           [POST_create_event accessToken (build_event ttl s e options)]"
    using assms by (simp add: createCalendarEvent_def Let_def split: sum.splits)
  have "0 \<le> roundToFiveMinutes m" unfolding roundToFiveMinutes_eq using assms(1)
    by (simp add: pos_imp_zdiv_nonneg_iff)
  then show "reminders (build_event ttl s e options) =
           (if roundToFiveMinutes m = 0 then None else Some [roundToFiveMinutes m])"
    using assms(3) by (auto simp add: build_event_def Let_def)
qed

lemma Math_round_div5: "Math_round (of_int m / 5) = (m + 2) div 5"
  using roundToFiveMinutes_eq [of m] unfolding roundToFiveMinutes_def by simp

lemma reminder_inline_small:
  "\<bar>or_default rem 15\<bar> < 2 ^ 50 \<Longrightarrow>
   reminder_inline env rem = 5 * ((or_default rem 15 + 2) div 5)"
  by (simp add: reminder_inline_def Let_def Math_round_div5)

lemma reminder_inline_zero: "reminder_inline env (Some 0) = 15"
  by (subst reminder_inline_small) (simp_all add: or_default_def)

lemma zero_reminder_parse: "BlockSessionInputSchema zero_reminder_args = Inr zero_reminder_input"
  by (simp add: zero_reminder_args_def zero_reminder_input_def BlockSessionInputSchema_def
      strict_def BlockSessionInput_keys_def at_key_def CalendarColorSchema_def z_enum_def
      z_default_def z_optional_def z_string_def z_string_check_def z_int_def
      start_time_regex_def dateTimePrefix_def twoDigits_def lit_def isDigit_def optSeconds_def
      zoneSuffix_def ascii_def)

text \<open>
  C4 fails in the self-contained handler, whose calendar runner reads the reminder as
  \<open>args.reminder_minutes || 15\<close>: a reminder of 0 is posted as \<open>reminders = [15]\<close>. The
  registered tool, which goes through \<open>createCalendarEvent\<close> and its
  \<open>options?.reminderMinutes ?? 15\<close>, posts the same request without a \<open>reminders\<close> field.
\<close>

theorem C4_inline_reminder_zero:
  "snd (tools_call_inline token_env (Some (JStr BLOCK_SESSION)) zero_reminder_call) =
     [POST_create_event (ascii ''token'')
        (build_event_inline token_env (ascii ''study'') (ascii ''2026-01-15T19:00:00'')
           (ascii ''2026-01-15T19:00:00'') None None (Some 0) None)] \<and>
   reminders (build_event_inline token_env (ascii ''study'') (ascii ''2026-01-15T19:00:00'')
                (ascii ''2026-01-15T19:00:00'') None None (Some 0) None) = Some [15] \<and>
   snd (blockSessionTool token_env zero_reminder_args) =
     [POST_create_event (ascii ''token'')
        (build_event (ascii ''study'') (ascii ''2026-01-15T19:00:00'')
           (ascii ''2026-01-15T19:00:00'') (block_options zero_reminder_input))] \<and>
   reminders (build_event (ascii ''study'') (ascii ''2026-01-15T19:00:00'')
                (ascii ''2026-01-15T19:00:00'') (block_options zero_reminder_input)) = None"
proof (intro conjI)
  have tok: "truthy (KAKAO_ACCESS_TOKEN token_env) = Some (ascii ''token'')"
    by (simp add: token_env_def truthy_def ascii_def)
  have iso: "iso_after token_env = (\<lambda>s m. Inr s)" "iso_millis_after token_env = (\<lambda>s m. Inr s)"
    "fetch_create_event token_env = (\<lambda>t ev. Inr 200)"
    "create_event token_env = (\<lambda>t ev. Inr (ascii ''event-1''))"
    by (simp_all add: token_env_def sample_env_def)
  show "snd (tools_call_inline token_env (Some (JStr BLOCK_SESSION)) zero_reminder_call) =
     [POST_create_event (ascii ''token'')
        (build_event_inline token_env (ascii ''study'') (ascii ''2026-01-15T19:00:00'')
           (ascii ''2026-01-15T19:00:00'') None None (Some 0) None)]"
    by (simp add: tools_call_inline_def resolve_tool_known executeTool_inline_def
        tool_names_distinct zero_reminder_call_def executeBlockSession_inline_def tok iso
        response_ok_def Let_def split: prod.splits)
  show "reminders (build_event_inline token_env (ascii ''study'') (ascii ''2026-01-15T19:00:00'')
                (ascii ''2026-01-15T19:00:00'') None None (Some 0) None) = Some [15]"
    by (simp add: build_event_inline_def reminder_inline_zero)
  have "ascii ''token'' \<noteq> []" by (simp add: ascii_def)
  then show "snd (blockSessionTool token_env zero_reminder_args) =
     [POST_create_event (ascii ''token'')
        (build_event (ascii ''study'') (ascii ''2026-01-15T19:00:00'')
           (ascii ''2026-01-15T19:00:00'') (block_options zero_reminder_input))]"
    by (simp add: blockSessionTool_def zero_reminder_parse tok block_session_body_def
        createCalendarEvent_def formatStartTime_def calculateEndTime_def iso Let_def
        zero_reminder_input_def split: prod.splits)
  show "reminders (build_event (ascii ''study'') (ascii ''2026-01-15T19:00:00'')
                (ascii ''2026-01-15T19:00:00'') (block_options zero_reminder_input)) = None"
    by (simp add: build_event_def block_options_def zero_reminder_input_def Let_def
        roundToFiveMinutes_eq)
qed


subsection \<open>The search schema on the maps it accepts\<close>

lemma PurposeSchema_Inr:
  "PurposeSchema v = Inr p \<Longrightarrow> v = Some (JStr (purpose_name p))"
  by (cases p) (auto simp: PurposeSchema_def ascii_def dest!: z_enum_Inr split: if_splits)

lemma ResponseFormatSchema_Inr:
  "ResponseFormatSchema v = Inr f \<Longrightarrow>
     (case v of None \<Rightarrow> f = markdown | Some j \<Rightarrow> j = JStr (format_name f))"
  by (cases f)
     (auto simp: ResponseFormatSchema_def ascii_def dest!: z_default_Inr z_enum_Inr
           split: if_splits option.splits)

lemma SearchSpotInputSchema_Inr:
  assumes "SearchSpotInputSchema (JObj kvs) = Inr v"
  shows "PurposeSchema (map_of kvs (ascii ''purpose'')) = Inr (SearchSpotInput.purpose v)"
    and "z_optional (z_string 0 100) (map_of kvs (ascii ''keyword'')) = Inr (keyword v)"
    and "z_string 1 100 (map_of kvs (ascii ''location'')) = Inr (SearchSpotInput.location v)"
    and "z_default (JNum 500) (z_int 100 20000) (map_of kvs (ascii ''radius'')) = Inr (radius v)"
    and "z_default (JNum 5) (z_int 1 15) (map_of kvs (ascii ''limit'')) = Inr (limit v)"
    and "ResponseFormatSchema (map_of kvs (ascii ''response_format'')) = Inr (response_format v)"
    and "fst ` set kvs \<subseteq> set SearchSpotInput_keys"
  using assms unfolding SearchSpotInputSchema_def
  by (auto dest!: strict_Inr and_field_Inr at_key_Inr)

lemma search_fields_pass:
  assumes "SearchSpotInputSchema (JObj kvs) = Inr v"
  shows "map_of kvs (ascii ''purpose'') = Some (JStr (purpose_name (SearchSpotInput.purpose v))) \<and>
         map_of kvs (ascii ''location'') = Some (JStr (SearchSpotInput.location v)) \<and>
         (case map_of kvs (ascii ''keyword'') of
            None \<Rightarrow> keyword v = None
          | Some j \<Rightarrow> j = JStr (the (keyword v)) \<and> keyword v \<noteq> None) \<and>
         (case map_of kvs (ascii ''radius'') of
            None \<Rightarrow> radius v = 500
          | Some j \<Rightarrow> j = JNum (of_int (radius v))) \<and>
         (case map_of kvs (ascii ''limit'') of
            None \<Rightarrow> limit v = 5
          | Some j \<Rightarrow> j = JNum (of_int (limit v))) \<and>
         (case map_of kvs (ascii ''response_format'') of
            None \<Rightarrow> response_format v = markdown
          | Some j \<Rightarrow> j = JStr (format_name (response_format v)))"
proof (intro conjI)
  note s = SearchSpotInputSchema_Inr [OF assms]
  show "map_of kvs (ascii ''purpose'') = Some (JStr (purpose_name (SearchSpotInput.purpose v)))"
    using s(1) by (rule PurposeSchema_Inr)
  show "map_of kvs (ascii ''location'') = Some (JStr (SearchSpotInput.location v))"
    using z_string_Inr [OF s(3)] by simp
  show "case map_of kvs (ascii ''keyword'') of
            None \<Rightarrow> keyword v = None
          | Some j \<Rightarrow> j = JStr (the (keyword v)) \<and> keyword v \<noteq> None"
    using z_optional_Inr [OF s(2)] by (auto dest!: z_string_Inr)
  show "case map_of kvs (ascii ''radius'') of
            None \<Rightarrow> radius v = 500
          | Some j \<Rightarrow> j = JNum (of_int (radius v))"
    using z_int_Inr [OF z_default_Inr [OF s(4)]] by (auto split: option.splits)
  show "case map_of kvs (ascii ''limit'') of
            None \<Rightarrow> limit v = 5
          | Some j \<Rightarrow> j = JNum (of_int (limit v))"
    using z_int_Inr [OF z_default_Inr [OF s(5)]] by (auto split: option.splits)
  show "case map_of kvs (ascii ''response_format'') of
            None \<Rightarrow> response_format v = markdown
          | Some j \<Rightarrow> j = JStr (format_name (response_format v))"
    using s(6) by (rule ResponseFormatSchema_Inr)
qed

lemma valid_search_args_parse:
  assumes "valid_search_args kvs"
  shows "\<exists>v. SearchSpotInputSchema (JObj kvs) = Inr v"
proof -
  from assms have k: "list_all (\<lambda>k. k \<in> set SearchSpotInput_keys) (map fst kvs)"
    by (simp add: valid_search_args_def SearchSpotInput_keys_def)
  from assms have "case map_of kvs (ascii ''purpose'') of
         Some (JStr s) \<Rightarrow>
           s \<in> {ascii ''study'', ascii ''exercise'', ascii ''reading'', ascii ''work''}
       | _ \<Rightarrow> False"
    by (simp add: valid_search_args_def)
  then have "\<exists>p. at_key kvs (ascii ''purpose'') PurposeSchema = Inr p"
    by (auto simp: at_key_def PurposeSchema_def z_enum_def ascii_def
        split: option.splits jvalue.splits)
  then obtain p where p: "at_key kvs (ascii ''purpose'') PurposeSchema = Inr p" ..
  from assms have "case map_of kvs (ascii ''keyword'') of
         None \<Rightarrow> True
       | Some (JStr s) \<Rightarrow> length s \<le> 100
       | _ \<Rightarrow> False"
    by (simp add: valid_search_args_def)
  then have "\<exists>kw. at_key kvs (ascii ''keyword'') (z_optional (z_string 0 100)) = Inr kw"
    by (auto simp: at_key_def z_optional_def z_string_ok
        split: option.splits jvalue.splits)
  then obtain kw where kw:
    "at_key kvs (ascii ''keyword'') (z_optional (z_string 0 100)) = Inr kw" ..
  from assms have "case map_of kvs (ascii ''location'') of
         Some (JStr s) \<Rightarrow> 1 \<le> length s \<and> length s \<le> 100
       | _ \<Rightarrow> False"
    by (simp add: valid_search_args_def)
  then have "\<exists>l. at_key kvs (ascii ''location'') (z_string 1 100) = Inr l"
    by (auto simp: at_key_def z_string_ok split: option.splits jvalue.splits)
  then obtain l where l: "at_key kvs (ascii ''location'') (z_string 1 100) = Inr l" ..
  from assms have "case map_of kvs (ascii ''radius'') of
         None \<Rightarrow> True
       | Some (JNum r) \<Rightarrow> r = of_int \<lfloor>r\<rfloor> \<and> 100 \<le> r \<and> r \<le> 20000
       | _ \<Rightarrow> False"
    by (simp add: valid_search_args_def)
  then have "\<exists>r. at_key kvs (ascii ''radius'') (z_default (JNum 500) (z_int 100 20000)) = Inr r"
    by (auto simp: at_key_def z_default_def z_int_ok split: option.splits jvalue.splits)
  then obtain r where r:
    "at_key kvs (ascii ''radius'') (z_default (JNum 500) (z_int 100 20000)) = Inr r" ..
  from assms have "case map_of kvs (ascii ''limit'') of
         None \<Rightarrow> True
       | Some (JNum r) \<Rightarrow> r = of_int \<lfloor>r\<rfloor> \<and> 1 \<le> r \<and> r \<le> 15
       | _ \<Rightarrow> False"
    by (simp add: valid_search_args_def)
  then have "\<exists>n. at_key kvs (ascii ''limit'') (z_default (JNum 5) (z_int 1 15)) = Inr n"
    by (auto simp: at_key_def z_default_def z_int_ok split: option.splits jvalue.splits)
  then obtain n where n:
    "at_key kvs (ascii ''limit'') (z_default (JNum 5) (z_int 1 15)) = Inr n" ..
  from assms have "case map_of kvs (ascii ''response_format'') of
         None \<Rightarrow> True
       | Some (JStr s) \<Rightarrow> s \<in> {ascii ''markdown'', ascii ''json''}
       | _ \<Rightarrow> False"
    by (simp add: valid_search_args_def)
  then have "\<exists>f. at_key kvs (ascii ''response_format'') ResponseFormatSchema = Inr f"
    by (auto simp: at_key_def ResponseFormatSchema_def z_default_def z_enum_def ascii_def
        split: option.splits jvalue.splits)
  then obtain f where f:
    "at_key kvs (ascii ''response_format'') ResponseFormatSchema = Inr f" ..
  from p kw l r n f show ?thesis
    by (simp add: SearchSpotInputSchema_def strict_ok [OF k])
qed

text \<open>
  C7: every valid search argument map is accepted by \<open>SearchSpotInputSchema\<close>, and the
  record it yields is the one the dispatcher with schemas runs the search on and the one
  whose fields the registered tool hands to the search service. Every supplied field
  passes through with its given value (purpose, location, keyword, radius, limit,
  response_format), and every absent field with a declared default is filled: radius 500,
  limit 5, response_format markdown; an absent keyword stays absent.
\<close>

theorem C7_validation_preserves_and_defaults:
  assumes "valid_search_args kvs"
  shows "\<exists>v. SearchSpotInputSchema (JObj kvs) = Inr v \<and>
           executeTool env SEARCH_SPOT (JObj kvs) = executeSearchSpot_api env v \<and>
           snd (searchSpotTool env (JObj kvs)) =
             snd (searchProductivitySpots env (SearchSpotInput.purpose v)
                    (SearchSpotInput.location v) (keyword v) (Some (radius v))
                    (Some (limit v))) \<and>
           map_of kvs (ascii ''purpose'') =
             Some (JStr (purpose_name (SearchSpotInput.purpose v))) \<and>
           map_of kvs (ascii ''location'') = Some (JStr (SearchSpotInput.location v)) \<and>
           (case map_of kvs (ascii ''keyword'') of
              None \<Rightarrow> keyword v = None
            | Some j \<Rightarrow> j = JStr (the (keyword v)) \<and> keyword v \<noteq> None) \<and>
           (case map_of kvs (ascii ''radius'') of
              None \<Rightarrow> radius v = 500
            | Some j \<Rightarrow> j = JNum (of_int (radius v))) \<and>
           (case map_of kvs (ascii ''limit'') of
              None \<Rightarrow> limit v = 5
            | Some j \<Rightarrow> j = JNum (of_int (limit v))) \<and>
           (case map_of kvs (ascii ''response_format'') of
              None \<Rightarrow> response_format v = markdown
            | Some j \<Rightarrow> j = JStr (format_name (response_format v)))"
proof -
  from valid_search_args_parse [OF assms] obtain v
    where v: "SearchSpotInputSchema (JObj kvs) = Inr v" by blast
  have e: "executeTool env SEARCH_SPOT (JObj kvs) = executeSearchSpot_api env v"
    by (simp add: executeTool_def v)
  have t: "snd (searchSpotTool env (JObj kvs)) =
             snd (searchProductivitySpots env (SearchSpotInput.purpose v)
                    (SearchSpotInput.location v) (keyword v) (Some (radius v))
                    (Some (limit v)))"
    by (simp add: searchSpotTool_def v split: prod.splits sum.splits)
  show ?thesis
    by (rule exI [of _ v])
      (rule conjI [OF v conjI [OF e conjI [OF t search_fields_pass [OF v]]]])
qed

text \<open>The theorem at a map with a purpose, a location and a radius only.\<close>

theorem C7_validation_preserves_and_defaults_witness:
  "valid_search_args hongdae_args \<and>
   (\<exists>v. SearchSpotInputSchema (JObj hongdae_args) = Inr v \<and>
        purpose_name (SearchSpotInput.purpose v) = ascii ''study'' \<and>
        SearchSpotInput.location v = ascii ''Hongdae Station'' \<and> keyword v = None \<and>
        radius v = 1000 \<and> limit v = 5 \<and> response_format v = markdown)"
proof -
  have a: "valid_search_args hongdae_args"
    by (simp add: valid_search_args_def hongdae_args_def ascii_def)
  have m: "map_of hongdae_args (ascii ''purpose'') = Some (JStr (ascii ''study''))"
    "map_of hongdae_args (ascii ''location'') = Some (JStr (ascii ''Hongdae Station''))"
    "map_of hongdae_args (ascii ''keyword'') = None"
    "map_of hongdae_args (ascii ''radius'') = Some (JNum 1000)"
    "map_of hongdae_args (ascii ''limit'') = None"
    "map_of hongdae_args (ascii ''response_format'') = None"
    by (simp_all add: hongdae_args_def ascii_def)
  from C7_validation_preserves_and_defaults [OF a, of sample_env] show ?thesis
    unfolding m
    apply (elim exE conjE)
    apply (rule conjI [OF a])
    apply (rule_tac x = v in exI)
    apply simp
    done
qed

subsection \<open>The text template\<close>

lemma or_else_idem: "or_else (Some (or_else v d)) d = or_else v d"
  by (auto simp: or_else_def split: option.splits)

lemma TEXT_HEADING_units:
  "TEXT_HEADING =
     [0x005B, 0xC624, 0xB298, 0xC758, 0x0020, 0xAC13, 0xC0DD, 0x0020, 0xBAA9, 0xD45C, 0x005D,
      0x000A, 0x000A]"
  by (simp add: TEXT_HEADING_def FEED_TITLE_def ascii_def)

lemma send_body_text:
  assumes "template_type input = TextType" and "tok \<noteq> []"
  shows "snd (send_commitment_body env tok input) =
           [POST_send_to_me tok
              (Text (posted_text env (SendCommitmentInput.goal input)
                       (SendCommitmentInput.encouragement input) (location_url input)))]"
  using assms
  by (simp add: send_commitment_body_def sendCommitmentCard_def build_template_def Let_def
      or_else_idem posted_text_def split: sum.splits prod.splits)

lemma parsed_is_object: "SendCommitmentInputSchema u params = Inr input \<Longrightarrow> \<exists>kvs. params = JObj kvs"
  by (cases params) (simp_all add: SendCommitmentInputSchema_def)

text \<open>
  C8: with a credential configured, the message tool called with \<open>template_type\<close>
  \<open>"text"\<close> posts one request, whose template is the text template; this holds for the
  registered tool, for the dispatcher with schemas and for the self-contained handler.
  The template's text field is the first 200 code units of the bracketed heading, a blank
  line, the goal, a blank line and the encouragement (the given one, or a random one when
  none is given): exactly 200 code units when that string is longer than 200, and the
  string itself otherwise.
\<close>

theorem C8_text_template_hard_cut:
  assumes "truthy (KAKAO_ACCESS_TOKEN env) = Some tok"
  shows
    "(SendCommitmentInputSchema (is_url env) params = Inr input \<and> template_type input = TextType \<longrightarrow>
        snd (sendCommitmentTool env params) =
          [POST_send_to_me tok
             (Text (posted_text env (SendCommitmentInput.goal input)
                      (SendCommitmentInput.encouragement input) (location_url input)))] \<and>
        snd (tools_call env (Some (JStr SEND_COMMITMENT)) (Some params)) =
          [POST_send_to_me tok
             (Text (posted_text env (SendCommitmentInput.goal input)
                      (SendCommitmentInput.encouragement input) (location_url input)))]) \<and>
     (as_commitment args = CommitmentArgs g locName url enc (Some (ascii ''text'')) \<longrightarrow>
        snd (tools_call_inline env (Some (JStr SEND_COMMITMENT)) args) =
          [POST_send_to_me tok (Text (posted_text env g enc url))]) \<and>
     TextTemplate.text (posted_text env g enc url) =
       take 200
         ([0x005B, 0xC624, 0xB298, 0xC758, 0x0020, 0xAC13, 0xC0DD, 0x0020, 0xBAA9, 0xD45C,
           0x005D, 0x000A, 0x000A] @ g @ [0x000A, 0x000A] @
          or_else enc (getRandomEncouragement env)) \<and>
     (if 200 < 13 + length g + 2 + length (or_else enc (getRandomEncouragement env))
      then length (TextTemplate.text (posted_text env g enc url)) = 200
      else TextTemplate.text (posted_text env g enc url) =
             [0x005B, 0xC624, 0xB298, 0xC758, 0x0020, 0xAC13, 0xC0DD, 0x0020, 0xBAA9, 0xD45C,
              0x005D, 0x000A, 0x000A] @ g @ [0x000A, 0x000A] @
             or_else enc (getRandomEncouragement env))"
proof (intro conjI impI)
  note tok = truthy_Some [OF assms]
  {
    assume h: "SendCommitmentInputSchema (is_url env) params = Inr input \<and> template_type input = TextType"
    then show "snd (sendCommitmentTool env params) =
          [POST_send_to_me tok
             (Text (posted_text env (SendCommitmentInput.goal input)
                      (SendCommitmentInput.encouragement input) (location_url input)))]"
      using send_body_text [of input tok env] tok assms
      by (auto simp add: sendCommitmentTool_def split: prod.splits sum.splits)
    from h obtain kvs where "params = JObj kvs" using parsed_is_object by blast
    then have a: "arguments_or_empty (Some params) = params"
      by (simp add: arguments_or_empty_def js_falsy_def)
    from h show "snd (tools_call env (Some (JStr SEND_COMMITMENT)) (Some params)) =
          [POST_send_to_me tok
             (Text (posted_text env (SendCommitmentInput.goal input)
                      (SendCommitmentInput.encouragement input) (location_url input)))]"
      using send_body_text [of input tok env] tok assms
      by (auto simp add: tools_call_def resolve_tool_known a executeTool_def
          tool_names_distinct executeSendCommitment_api_def split: prod.splits sum.splits)
  }
  {
    assume h: "as_commitment args = CommitmentArgs g locName url enc (Some (ascii ''text''))"
    have nf: "or_else (Some (ascii ''text'')) (ascii ''feed'') \<noteq> ascii ''feed''"
      by (simp add: or_else_def ascii_def)
    from h nf show "snd (tools_call_inline env (Some (JStr SEND_COMMITMENT)) args) =
          [POST_send_to_me tok (Text (posted_text env g enc url))]"
      using assms
      by (simp add: tools_call_inline_def resolve_tool_known executeTool_inline_def
          tool_names_distinct executeSendCommitment_inline_def build_template_inline_def
          posted_text_def Let_def split: prod.splits sum.splits)
  }
  show "TextTemplate.text (posted_text env g enc url) =
       take 200
         ([0x005B, 0xC624, 0xB298, 0xC758, 0x0020, 0xAC13, 0xC0DD, 0x0020, 0xBAA9, 0xD45C,
           0x005D, 0x000A, 0x000A] @ g @ [0x000A, 0x000A] @
          or_else enc (getRandomEncouragement env))"
    by (simp add: posted_text_def createTextTemplate_def composeText_def TEXT_HEADING_units)
  define c where "c = [0x005B, 0xC624, 0xB298, 0xC758, 0x0020, 0xAC13, 0xC0DD, 0x0020, 0xBAA9,
      0xD45C, 0x005D, 0x000A, 0x000A] @ g @ [0x000A, 0x000A] @
      or_else enc (getRandomEncouragement env)"
  have t: "TextTemplate.text (posted_text env g enc url) = take 200 c"
    unfolding c_def
    by (simp add: posted_text_def createTextTemplate_def composeText_def TEXT_HEADING_units)
  have l: "length c = 13 + length g + 2 + length (or_else enc (getRandomEncouragement env))"
    by (simp add: c_def)
  have "if 200 < length c then length (take 200 c) = 200 else take 200 c = c"
    by simp
  then show "if 200 < 13 + length g + 2 + length (or_else enc (getRandomEncouragement env))
      then length (TextTemplate.text (posted_text env g enc url)) = 200
      else TextTemplate.text (posted_text env g enc url) =
             [0x005B, 0xC624, 0xB298, 0xC758, 0x0020, 0xAC13, 0xC0DD, 0x0020, 0xBAA9, 0xD45C,
              0x005D, 0x000A, 0x000A] @ g @ [0x000A, 0x000A] @
             or_else enc (getRandomEncouragement env)"
    unfolding t l [symmetric] unfolding c_def .
qed

text \<open>The theorem at a goal of 150 and an encouragement of 100 code units.\<close>

theorem C8_text_template_hard_cut_witness:
  "snd (sendCommitmentTool token_env long_text_args) =
     [POST_send_to_me (ascii ''token'')
        (Text (posted_text token_env (replicate 150 0x61) (Some (replicate 100 0x62)) None))] \<and>
   snd (tools_call token_env (Some (JStr SEND_COMMITMENT)) (Some long_text_args)) =
     [POST_send_to_me (ascii ''token'')
        (Text (posted_text token_env (replicate 150 0x61) (Some (replicate 100 0x62)) None))] \<and>
   snd (tools_call_inline token_env (Some (JStr SEND_COMMITMENT)) long_text_call) =
     [POST_send_to_me (ascii ''token'')
        (Text (posted_text token_env (replicate 150 0x61) (Some (replicate 100 0x62)) None))] \<and>
   length (TextTemplate.text
             (posted_text token_env (replicate 150 0x61) (Some (replicate 100 0x62)) None)) = 200"
proof -
  have tok: "truthy (KAKAO_ACCESS_TOKEN token_env) = Some (ascii ''token'')"
    by (simp add: token_env_def truthy_def ascii_def)
  have p: "SendCommitmentInputSchema (is_url token_env) long_text_args = Inr long_text_input"
    by (simp add: long_text_args_def long_text_input_def SendCommitmentInputSchema_def
        strict_def SendCommitmentInput_keys_def at_key_def MessageTemplateTypeSchema_def
        z_enum_def z_default_def z_optional_def z_string_def z_string_check_def ascii_def)
  have i: "template_type long_text_input = TextType"
    "SendCommitmentInput.goal long_text_input = replicate 150 0x61"
    "SendCommitmentInput.encouragement long_text_input = Some (replicate 100 0x62)"
    "location_url long_text_input = None"
    by (simp_all add: long_text_input_def)
  have c: "as_commitment long_text_call =
             CommitmentArgs (replicate 150 0x61) None None (Some (replicate 100 0x62))
               (Some (ascii ''text''))"
    by (simp add: long_text_call_def)
  have e: "or_else (Some (replicate 100 (0x62 :: 16 word))) (getRandomEncouragement token_env) =
             replicate 100 0x62"
    by (simp add: or_else_def)
  from C8_text_template_hard_cut [OF tok, of long_text_args long_text_input long_text_call
      "replicate 150 0x61" None None "Some (replicate 100 0x62)"] p i c e
  show ?thesis by simp
qed


subsection \<open>Errors of the coordinate lookup\<close>

lemma getCoordinates_address_fails:
  "address_search env (kakaoRestApiKey env) loc = Inl e \<Longrightarrow>
     getCoordinates env loc = (None, [GET_address_search (kakaoRestApiKey env) loc])"
  by (simp add: getCoordinates_def Let_def)

lemma getCoordinates_keyword_fails:
  "address_search env (kakaoRestApiKey env) loc = Inr [] \<Longrightarrow>
   keyword_search env (kakaoRestApiKey env) (lookup_params loc) = Inl e \<Longrightarrow>
     getCoordinates env loc =
       (None, [GET_address_search (kakaoRestApiKey env) loc,
               GET_keyword_search (kakaoRestApiKey env) (lookup_params loc)])"
  by (simp add: getCoordinates_def Let_def)

lemma searchPlaces_not_found:
  assumes "kakaoRestApiKey env \<noteq> []" and "fst (getCoordinates env loc) = None"
  shows "searchPlaces env p loc kw r n =
           (Inl (Error (ERR_LOCATION_NOT_FOUND @ loc)), snd (getCoordinates env loc))"
  using assms by (cases "getCoordinates env loc") (simp add: searchPlaces_def)

lemma searchSpotTool_not_found:
  assumes "kakaoRestApiKey env \<noteq> []"
    and "SearchSpotInputSchema params = Inr input"
    and "fst (getCoordinates env (SearchSpotInput.location input)) = None"
  shows "searchSpotTool env params =
           (error_result (ERROR_PREFIX @ ERR_LOCATION_NOT_FOUND @ SearchSpotInput.location input),
            snd (getCoordinates env (SearchSpotInput.location input)))"
  using assms(2) searchPlaces_not_found [OF assms(1,3)]
  by (simp add: searchSpotTool_def searchProductivitySpots_def error_message_def)

lemma not_found_is_not_a_classification:
  "ERR_LOCATION_NOT_FOUND @ loc \<noteq> ERR_KAKAO_AUTH"
  "ERR_LOCATION_NOT_FOUND @ loc \<noteq> ERR_RATE_LIMIT"
  "ERR_LOCATION_NOT_FOUND @ loc \<noteq> P1_ERR_AUTH"
  by (simp_all add: ERR_LOCATION_NOT_FOUND_def ERR_KAKAO_AUTH_def ERR_RATE_LIMIT_def
      P1_ERR_AUTH_def ascii_def)

lemma key_error_is_not_a_classification:
  "ERR_KEY_NOT_CONFIGURED \<noteq> ERR_KAKAO_AUTH"
  "ERR_KEY_NOT_CONFIGURED \<noteq> ERR_RATE_LIMIT"
  "P1_ERR_KEY \<noteq> P1_ERR_AUTH"
  by (simp_all add: ERR_KEY_NOT_CONFIGURED_def ERR_KAKAO_AUTH_def ERR_RATE_LIMIT_def
      P1_ERR_KEY_def P1_ERR_AUTH_def ascii_def)

lemma searchPlaces_classified:
  assumes "fst (searchPlaces env p loc kw r n) = Inl (Error m)"
    and "m = ERR_KAKAO_AUTH \<or> m = ERR_RATE_LIMIT"
  shows "\<exists>coords cs e.
           getCoordinates env loc = (Some coords, cs) \<and>
           keyword_search env (kakaoRestApiKey env)
             (search_params p loc kw (case r of None \<Rightarrow> 500 | Some v \<Rightarrow> v)
                (case n of None \<Rightarrow> 5 | Some v \<Rightarrow> v) coords) = Inl e \<and>
           classify_search_error e = Error m \<and>
           snd (searchPlaces env p loc kw r n) =
             cs @ [GET_keyword_search (kakaoRestApiKey env)
                     (search_params p loc kw (case r of None \<Rightarrow> 500 | Some v \<Rightarrow> v)
                        (case n of None \<Rightarrow> 5 | Some v \<Rightarrow> v) coords)]"
proof (cases "getCoordinates env loc")
  case (Pair c cs)
  show ?thesis
  proof (cases c)
    case None
    with Pair assms show ?thesis
      using not_found_is_not_a_classification [of loc] key_error_is_not_a_classification
      by (auto simp: searchPlaces_def split: if_splits)
  next
    case (Some coords)
    with Pair assms show ?thesis
      using key_error_is_not_a_classification
      by (auto simp: searchPlaces_def Let_def split: if_splits sum.splits)
  qed
qed


lemma getCoordinates_inline_fails:
  assumes "kakaoRestApiKey env \<noteq> []" and "well_formed loc"
    and "fetch_address env (kakaoRestApiKey env) loc = Inl e \<or>
         fetch_address env (kakaoRestApiKey env) loc = Inr (Fetched st (Inl e))"
  shows "getCoordinates_inline env loc =
           (None, [GET_address_search (kakaoRestApiKey env) loc])"
  using assms by (auto simp: getCoordinates_inline_def Let_def)

lemma getCoordinates_inline_keyword_fails:
  assumes "kakaoRestApiKey env \<noteq> []" and "well_formed loc"
    and "fetch_address env (kakaoRestApiKey env) loc = Inr (Fetched st (Inr []))"
    and "fetch_keyword env (kakaoRestApiKey env) (lookup_params loc) = Inl e \<or>
         fetch_keyword env (kakaoRestApiKey env) (lookup_params loc) =
           Inr (Fetched st2 (Inl e))"
  shows "getCoordinates_inline env loc =
           (None, [GET_address_search (kakaoRestApiKey env) loc,
                   GET_keyword_search (kakaoRestApiKey env) (lookup_params loc)])"
  using assms by (auto simp: getCoordinates_inline_def Let_def)

lemma getCoordinates_inline_malformed:
  "\<not> well_formed loc \<Longrightarrow> getCoordinates_inline env loc = (None, [])"
  by (simp add: getCoordinates_inline_def Let_def)

lemma searchPlaces_inline_not_found:
  assumes "kakaoRestApiKey env \<noteq> []" and "fst (getCoordinates_inline env loc) = None"
  shows "searchPlaces_inline env p loc kw r n =
           (Inl (Error (ERR_LOCATION_NOT_FOUND @ loc)), snd (getCoordinates_inline env loc))"
  using assms by (cases "getCoordinates_inline env loc") (simp add: searchPlaces_inline_def)

lemma tools_call_inline_not_found:
  assumes "kakaoRestApiKey env \<noteq> []"
    and "as_search args = SearchArgs p loc kw r n fmt"
    and "fst (getCoordinates_inline env loc) = None"
  shows "tools_call_inline env (Some (JStr SEARCH_SPOT)) args =
           (JsonRpcResult
              \<lparr> CallToolResult.content =
                  [TextContent (P1_SEARCH_FAILED @ ERR_LOCATION_NOT_FOUND @ loc)],
                isError = None \<rparr>,
            snd (getCoordinates_inline env loc))"
  using assms(2) searchPlaces_inline_not_found [OF assms(1,3)]
  by (simp add: tools_call_inline_search executeSearchSpot_inline_def getErrorMessage_def
      error_message_def)

lemma inline_messages_differ:
  "URI_MALFORMED \<noteq> P1_ERR_AUTH"
  "ERR_SEARCH_FAILED @ ds \<noteq> P1_ERR_AUTH"
  by (simp_all add: URI_MALFORMED_def ERR_SEARCH_FAILED_def P1_ERR_AUTH_def ascii_def)

lemma searchPlaces_inline_classified:
  assumes "fst (searchPlaces_inline env p loc kw r n) = Inl (Error P1_ERR_AUTH)"
  shows "\<exists>coords cs.
           getCoordinates_inline env loc = (Some coords, cs) \<and>
           snd (searchPlaces_inline env p loc kw r n) =
             cs @ [GET_keyword_search (kakaoRestApiKey env)
                     (search_params p loc kw r n coords)]"
proof (cases "getCoordinates_inline env loc")
  case (Pair c cs)
  show ?thesis
  proof (cases c)
    case None
    with Pair assms show ?thesis
      using not_found_is_not_a_classification [of loc] key_error_is_not_a_classification
      by (auto simp: searchPlaces_inline_def split: if_splits)
  next
    case (Some coords)
    with Pair assms show ?thesis
      using key_error_is_not_a_classification inline_messages_differ
      by (auto simp: searchPlaces_inline_def Let_def
          split: if_splits sum.splits fetched.splits)
  qed
qed

text \<open>
  C10: with an API key configured, the coordinate lookup returns \<open>null\<close> whenever one of
  its requests fails: the address lookup, or the keyword lookup after an empty address
  answer; for the self-contained handler also when the body of a response has no
  documents (as the body of a 401 or 429 response) or the location cannot be encoded.
  Whenever the lookup returns \<open>null\<close>, the search ends with the location-not-found error
  naming the location and no place-search request is made: this is what the registered tool
  and the self-contained handler return. The authorization and rate-limit messages come
  only out of a run whose lookup found coordinates and whose last request is the place
  search.
\<close>

theorem C10_coordinate_lookup_swallows_errors:
  assumes "kakaoRestApiKey env \<noteq> []"
  shows
    "(address_search env (kakaoRestApiKey env) loc = Inl e \<longrightarrow>
        getCoordinates env loc = (None, [GET_address_search (kakaoRestApiKey env) loc])) \<and>
     (address_search env (kakaoRestApiKey env) loc = Inr [] \<and>
      keyword_search env (kakaoRestApiKey env) (lookup_params loc) = Inl e \<longrightarrow>
        getCoordinates env loc =
          (None, [GET_address_search (kakaoRestApiKey env) loc,
                  GET_keyword_search (kakaoRestApiKey env) (lookup_params loc)])) \<and>
     (fst (getCoordinates env loc) = None \<longrightarrow>
        searchPlaces env p loc kw r n =
          (Inl (Error (ERR_LOCATION_NOT_FOUND @ loc)), snd (getCoordinates env loc))) \<and>
     (SearchSpotInputSchema params = Inr input \<and>
      fst (getCoordinates env (SearchSpotInput.location input)) = None \<longrightarrow>
        searchSpotTool env params =
          (error_result
             (ERROR_PREFIX @ ERR_LOCATION_NOT_FOUND @ SearchSpotInput.location input),
           snd (getCoordinates env (SearchSpotInput.location input)))) \<and>
     (fst (searchPlaces env p loc kw r n) = Inl (Error m) \<and>
      (m = ERR_KAKAO_AUTH \<or> m = ERR_RATE_LIMIT) \<longrightarrow>
        (\<exists>coords cs e.
           getCoordinates env loc = (Some coords, cs) \<and>
           keyword_search env (kakaoRestApiKey env)
             (search_params p loc kw (case r of None \<Rightarrow> 500 | Some v \<Rightarrow> v)
                (case n of None \<Rightarrow> 5 | Some v \<Rightarrow> v) coords) = Inl e \<and>
           classify_search_error e = Error m \<and>
           snd (searchPlaces env p loc kw r n) =
             cs @ [GET_keyword_search (kakaoRestApiKey env)
                     (search_params p loc kw (case r of None \<Rightarrow> 500 | Some v \<Rightarrow> v)
                        (case n of None \<Rightarrow> 5 | Some v \<Rightarrow> v) coords)])) \<and>
     (well_formed loc \<and>
      (fetch_address env (kakaoRestApiKey env) loc = Inl e \<or>
       fetch_address env (kakaoRestApiKey env) loc = Inr (Fetched st (Inl e))) \<longrightarrow>
        getCoordinates_inline env loc =
          (None, [GET_address_search (kakaoRestApiKey env) loc])) \<and>
     (well_formed loc \<and>
      fetch_address env (kakaoRestApiKey env) loc = Inr (Fetched st (Inr [])) \<and>
      (fetch_keyword env (kakaoRestApiKey env) (lookup_params loc) = Inl e \<or>
       fetch_keyword env (kakaoRestApiKey env) (lookup_params loc) =
         Inr (Fetched st2 (Inl e))) \<longrightarrow>
        getCoordinates_inline env loc =
          (None, [GET_address_search (kakaoRestApiKey env) loc,
                  GET_keyword_search (kakaoRestApiKey env) (lookup_params loc)])) \<and>
     (\<not> well_formed loc \<longrightarrow> getCoordinates_inline env loc = (None, [])) \<and>
     (as_search args = SearchArgs p loc kw ro no fmt \<and>
      fst (getCoordinates_inline env loc) = None \<longrightarrow>
        tools_call_inline env (Some (JStr SEARCH_SPOT)) args =
          (JsonRpcResult
             \<lparr> CallToolResult.content =
                 [TextContent (P1_SEARCH_FAILED @ ERR_LOCATION_NOT_FOUND @ loc)],
               isError = None \<rparr>,
           snd (getCoordinates_inline env loc))) \<and>
     (fst (searchPlaces_inline env p loc kw ri ni) = Inl (Error P1_ERR_AUTH) \<longrightarrow>
        (\<exists>coords cs.
           getCoordinates_inline env loc = (Some coords, cs) \<and>
           snd (searchPlaces_inline env p loc kw ri ni) =
             cs @ [GET_keyword_search (kakaoRestApiKey env)
                     (search_params p loc kw ri ni coords)]))"
proof -
  note k = assms
  have c1: "address_search env (kakaoRestApiKey env) loc = Inl e \<longrightarrow>
        getCoordinates env loc = (None, [GET_address_search (kakaoRestApiKey env) loc])"
    using getCoordinates_address_fails by blast
  have c2: "address_search env (kakaoRestApiKey env) loc = Inr [] \<and>
      keyword_search env (kakaoRestApiKey env) (lookup_params loc) = Inl e \<longrightarrow>
        getCoordinates env loc =
          (None, [GET_address_search (kakaoRestApiKey env) loc,
                  GET_keyword_search (kakaoRestApiKey env) (lookup_params loc)])"
    using getCoordinates_keyword_fails by blast
  have c3: "fst (getCoordinates env loc) = None \<longrightarrow>
        searchPlaces env p loc kw r n =
          (Inl (Error (ERR_LOCATION_NOT_FOUND @ loc)), snd (getCoordinates env loc))"
    using searchPlaces_not_found [OF k] by blast
  have c4: "SearchSpotInputSchema params = Inr input \<and>
      fst (getCoordinates env (SearchSpotInput.location input)) = None \<longrightarrow>
        searchSpotTool env params =
          (error_result
             (ERROR_PREFIX @ ERR_LOCATION_NOT_FOUND @ SearchSpotInput.location input),
           snd (getCoordinates env (SearchSpotInput.location input)))"
    using searchSpotTool_not_found [OF k] by blast
  have c5: "fst (searchPlaces env p loc kw r n) = Inl (Error m) \<and>
      (m = ERR_KAKAO_AUTH \<or> m = ERR_RATE_LIMIT) \<longrightarrow>
        (\<exists>coords cs e.
           getCoordinates env loc = (Some coords, cs) \<and>
           keyword_search env (kakaoRestApiKey env)
             (search_params p loc kw (case r of None \<Rightarrow> 500 | Some v \<Rightarrow> v)
                (case n of None \<Rightarrow> 5 | Some v \<Rightarrow> v) coords) = Inl e \<and>
           classify_search_error e = Error m \<and>
           snd (searchPlaces env p loc kw r n) =
             cs @ [GET_keyword_search (kakaoRestApiKey env)
                     (search_params p loc kw (case r of None \<Rightarrow> 500 | Some v \<Rightarrow> v)
                        (case n of None \<Rightarrow> 5 | Some v \<Rightarrow> v) coords)])"
    using searchPlaces_classified [of env p loc kw r n m] by (intro impI) (elim conjE)
  have c6: "well_formed loc \<and>
      (fetch_address env (kakaoRestApiKey env) loc = Inl e \<or>
       fetch_address env (kakaoRestApiKey env) loc = Inr (Fetched st (Inl e))) \<longrightarrow>
        getCoordinates_inline env loc =
          (None, [GET_address_search (kakaoRestApiKey env) loc])"
    using getCoordinates_inline_fails [OF k] by blast
  have c7: "well_formed loc \<and>
      fetch_address env (kakaoRestApiKey env) loc = Inr (Fetched st (Inr [])) \<and>
      (fetch_keyword env (kakaoRestApiKey env) (lookup_params loc) = Inl e \<or>
       fetch_keyword env (kakaoRestApiKey env) (lookup_params loc) =
         Inr (Fetched st2 (Inl e))) \<longrightarrow>
        getCoordinates_inline env loc =
          (None, [GET_address_search (kakaoRestApiKey env) loc,
                  GET_keyword_search (kakaoRestApiKey env) (lookup_params loc)])"
    using getCoordinates_inline_keyword_fails [OF k] by blast
  have c7b: "\<not> well_formed loc \<longrightarrow> getCoordinates_inline env loc = (None, [])"
    using getCoordinates_inline_malformed by blast
  have c8: "as_search args = SearchArgs p loc kw ro no fmt \<and>
      fst (getCoordinates_inline env loc) = None \<longrightarrow>
        tools_call_inline env (Some (JStr SEARCH_SPOT)) args =
          (JsonRpcResult
             \<lparr> CallToolResult.content =
                 [TextContent (P1_SEARCH_FAILED @ ERR_LOCATION_NOT_FOUND @ loc)],
               isError = None \<rparr>,
           snd (getCoordinates_inline env loc))"
    using tools_call_inline_not_found [OF k] by blast
  have c9: "fst (searchPlaces_inline env p loc kw ri ni) = Inl (Error P1_ERR_AUTH) \<longrightarrow>
        (\<exists>coords cs.
           getCoordinates_inline env loc = (Some coords, cs) \<and>
           snd (searchPlaces_inline env p loc kw ri ni) =
             cs @ [GET_keyword_search (kakaoRestApiKey env)
                     (search_params p loc kw ri ni coords)])"
    using searchPlaces_inline_classified by blast
  show ?thesis
    by (rule conjI [OF c1 conjI [OF c2 conjI [OF c3 conjI [OF c4 conjI [OF c5
          conjI [OF c6 conjI [OF c7 conjI [OF c7b conjI [OF c8 c9]]]]]]]]])
qed

text \<open>The theorem at a provider that answers the address lookup with 401, at a location
  that cannot be encoded, and at a provider that answers the place search with 401.\<close>

theorem C10_coordinate_lookup_swallows_errors_witness:
  "kakaoRestApiKey unauthorized_env \<noteq> [] \<and>
   address_search unauthorized_env (kakaoRestApiKey unauthorized_env)
       (ascii ''Hongdae Station'') =
     Inl (AxiosError (Some 401) (ascii ''Request failed with status code 401'') None) \<and>
   searchSpotTool unauthorized_env (JObj hongdae_args) =
     (error_result (ERROR_PREFIX @ ERR_LOCATION_NOT_FOUND @ ascii ''Hongdae Station''),
      [GET_address_search (ascii ''key'') (ascii ''Hongdae Station'')]) \<and>
   fetch_address unauthorized_env (kakaoRestApiKey unauthorized_env) (ascii ''Hongdae'') =
     Inr (Fetched 401 (Inl (Error (ascii ''no documents'')))) \<and>
   tools_call_inline unauthorized_env (Some (JStr SEARCH_SPOT)) hongdae_markdown =
     (JsonRpcResult
        \<lparr> CallToolResult.content =
            [TextContent (P1_SEARCH_FAILED @ ERR_LOCATION_NOT_FOUND @ ascii ''Hongdae'')],
          isError = None \<rparr>,
      [GET_address_search (ascii ''key'') (ascii ''Hongdae'')]) \<and>
   \<not> well_formed [0xD800] \<and>
   getCoordinates_inline unauthorized_env [0xD800] = (None, []) \<and>
   searchPlaces search_unauthorized_env study (ascii ''Hongdae'') None None None =
     (Inl (Error ERR_KAKAO_AUTH),
      [GET_address_search (ascii ''key'') (ascii ''Hongdae''),
       GET_keyword_search (ascii ''key'')
         (search_params study (ascii ''Hongdae'') None 500 5
            (ascii ''126.92'', ascii ''37.55''))]) \<and>
   searchPlaces_inline search_unauthorized_env study (ascii ''Hongdae'') None 500 5 =
     (Inl (Error P1_ERR_AUTH),
      [GET_address_search (ascii ''key'') (ascii ''Hongdae''),
       GET_keyword_search (ascii ''key'')
         (search_params study (ascii ''Hongdae'') None 500 5
            (ascii ''126.92'', ascii ''37.55''))])"
proof -
  let ?e = "AxiosError (Some 401) (ascii ''Request failed with status code 401'') None"
  let ?input = "\<lparr> SearchSpotInput.purpose = study, keyword = None,
           SearchSpotInput.location = ascii ''Hongdae Station'', radius = 1000, limit = 5,
           response_format = markdown \<rparr>"
  have k: "kakaoRestApiKey unauthorized_env \<noteq> []"
    and key: "kakaoRestApiKey unauthorized_env = ascii ''key''"
    by (simp_all add: unauthorized_env_def sample_env_def ascii_def)
  have a: "address_search unauthorized_env (kakaoRestApiKey unauthorized_env) l = Inl ?e" for l
    by (simp add: unauthorized_env_def)
  have f: "fetch_address unauthorized_env (kakaoRestApiKey unauthorized_env) l =
             Inr (Fetched 401 (Inl (Error (ascii ''no documents''))))" for l
    by (simp add: unauthorized_env_def)
  have s: "as_search hongdae_markdown =
             SearchArgs study (ascii ''Hongdae'') None None None (Some (ascii ''markdown''))"
    by (simp add: hongdae_markdown_def no_args_def)
  note t = C10_coordinate_lookup_swallows_errors [OF k,
      where e = ?e and params = "JObj hongdae_args" and input = ?input
        and args = hongdae_markdown and p = study and kw = None and ro = None and no = None
        and fmt = "Some (ascii ''markdown'')" and st = 401]
  have g1: "getCoordinates unauthorized_env (ascii ''Hongdae Station'') =
              (None, [GET_address_search (ascii ''key'') (ascii ''Hongdae Station'')])"
    using t [where loc = "ascii ''Hongdae Station''", THEN conjunct1] a key by simp
  have g2: "getCoordinates_inline unauthorized_env (ascii ''Hongdae'') =
              (None, [GET_address_search (ascii ''key'') (ascii ''Hongdae'')])"
    using getCoordinates_inline_fails [OF k well_formed_Hongdae, of _ 401] f key by simp
  have t4: "searchSpotTool unauthorized_env (JObj hongdae_args) =
     (error_result (ERROR_PREFIX @ ERR_LOCATION_NOT_FOUND @ ascii ''Hongdae Station''),
      [GET_address_search (ascii ''key'') (ascii ''Hongdae Station'')])"
    using t [THEN conjunct2, THEN conjunct2, THEN conjunct2, THEN conjunct1] hongdae_parse g1
    by simp
  have t8: "tools_call_inline unauthorized_env (Some (JStr SEARCH_SPOT)) hongdae_markdown =
     (JsonRpcResult
        \<lparr> CallToolResult.content =
            [TextContent (P1_SEARCH_FAILED @ ERR_LOCATION_NOT_FOUND @ ascii ''Hongdae'')],
          isError = None \<rparr>,
      [GET_address_search (ascii ''key'') (ascii ''Hongdae'')])"
    using t [where loc = "ascii ''Hongdae''", THEN conjunct2, THEN conjunct2, THEN conjunct2,
        THEN conjunct2, THEN conjunct2, THEN conjunct2, THEN conjunct2, THEN conjunct2,
        THEN conjunct1] s g2
    by simp
  have w: "\<not> well_formed [0xD800]"
    by (simp add: isHighSurrogate_def isLowSurrogate_def)
  have t7: "getCoordinates_inline unauthorized_env [0xD800] = (None, [])"
    using t [where loc = "[0xD800]", THEN conjunct2, THEN conjunct2, THEN conjunct2,
        THEN conjunct2, THEN conjunct2, THEN conjunct2, THEN conjunct2, THEN conjunct1] w
    by blast
  have k2: "kakaoRestApiKey search_unauthorized_env \<noteq> []"
    and key2: "kakaoRestApiKey search_unauthorized_env = ascii ''key''"
    by (simp_all add: search_unauthorized_env_def sample_env_def ascii_def)
  note u = C10_coordinate_lookup_swallows_errors [OF k2,
      where loc = "ascii ''Hongdae''" and p = study and kw = None and r = None and n = None
        and m = ERR_KAKAO_AUTH and ri = 500 and ni = 5]
  have h1: "getCoordinates search_unauthorized_env (ascii ''Hongdae'') =
              (Some (ascii ''126.92'', ascii ''37.55''),
               [GET_address_search (ascii ''key'') (ascii ''Hongdae'')])"
    by (simp add: getCoordinates_def search_unauthorized_env_def sample_env_def)
  have h2: "getCoordinates_inline search_unauthorized_env (ascii ''Hongdae'') =
              (Some (ascii ''126.92'', ascii ''37.55''),
               [GET_address_search (ascii ''key'') (ascii ''Hongdae'')])"
    using well_formed_Hongdae k2
    by (simp add: getCoordinates_inline_def search_unauthorized_env_def sample_env_def)
  have q: "well_formed (query_param (search_params study (ascii ''Hongdae'') None 500 5
             (ascii ''126.92'', ascii ''37.55'')))"
    by (simp add: search_params_def or_else_def KW_STUDY_def ascii_def well_formed.simps
        isHighSurrogate_def isLowSurrogate_def)
  have ks: "keyword_search search_unauthorized_env k' ps =
              Inl (AxiosError (Some 401) (ascii ''Request failed with status code 401'') None)"
    and fk: "fetch_keyword search_unauthorized_env k' ps =
              Inr (Fetched 401 (Inl (Error (ascii ''no documents''))))" for k' ps
    by (simp_all add: search_unauthorized_env_def)
  have f1: "fst (searchPlaces search_unauthorized_env study (ascii ''Hongdae'') None None None) =
              Inl (Error ERR_KAKAO_AUTH)"
    using k2 by (simp add: searchPlaces_def h1 ks Let_def classify_search_error_def)
  have f2: "fst (searchPlaces_inline search_unauthorized_env study (ascii ''Hongdae'') None 500 5) =
              Inl (Error P1_ERR_AUTH)"
    using k2 q by (simp add: searchPlaces_inline_def h2 fk Let_def response_ok_def)
  have t5: "snd (searchPlaces search_unauthorized_env study (ascii ''Hongdae'') None None None) =
      [GET_address_search (ascii ''key'') (ascii ''Hongdae''),
       GET_keyword_search (ascii ''key'')
         (search_params study (ascii ''Hongdae'') None 500 5
            (ascii ''126.92'', ascii ''37.55''))]"
    using u [THEN conjunct2, THEN conjunct2, THEN conjunct2, THEN conjunct2, THEN conjunct1]
      f1 h1 key2 by auto
  have t9: "snd (searchPlaces_inline search_unauthorized_env study (ascii ''Hongdae'') None 500 5) =
      [GET_address_search (ascii ''key'') (ascii ''Hongdae''),
       GET_keyword_search (ascii ''key'')
         (search_params study (ascii ''Hongdae'') None 500 5
            (ascii ''126.92'', ascii ''37.55''))]"
    using u [THEN conjunct2, THEN conjunct2, THEN conjunct2, THEN conjunct2, THEN conjunct2,
        THEN conjunct2, THEN conjunct2, THEN conjunct2, THEN conjunct2] f2 h2 key2 by auto
  have p5: "searchPlaces search_unauthorized_env study (ascii ''Hongdae'') None None None =
     (Inl (Error ERR_KAKAO_AUTH),
      [GET_address_search (ascii ''key'') (ascii ''Hongdae''),
       GET_keyword_search (ascii ''key'')
         (search_params study (ascii ''Hongdae'') None 500 5
            (ascii ''126.92'', ascii ''37.55''))])"
    using f1 t5 by (simp add: prod_eq_iff)
  have p9: "searchPlaces_inline search_unauthorized_env study (ascii ''Hongdae'') None 500 5 =
     (Inl (Error P1_ERR_AUTH),
      [GET_address_search (ascii ''key'') (ascii ''Hongdae''),
       GET_keyword_search (ascii ''key'')
         (search_params study (ascii ''Hongdae'') None 500 5
            (ascii ''126.92'', ascii ''37.55''))])"
    using f2 t9 by (simp add: prod_eq_iff)
  show ?thesis
    by (rule conjI [OF k conjI [OF a conjI [OF t4 conjI [OF f conjI [OF t8 conjI [OF w conjI [OF t7 conjI [OF p5 p9]]]]]]]])
qed

end
